theory Spec2Isabelle
  imports Complex_Main
begin

section \<open>Data model (types.ts)\<close>

text \<open>
  The \<^verbatim>\<open>Severity\<close> enum of the source is a TypeScript string enum: at run time a severity
  is the string itself. Violations reach the scoring engine through an unchecked cast of
  parsed JSON, so the field is modelled as the run-time value: a string, or \<open>None\<close> when
  the property is missing.
\<close>

definition CRITICAL :: string where "CRITICAL = ''critical''"
definition HIGH :: string where "HIGH = ''high''"
definition MEDIUM :: string where "MEDIUM = ''medium''"
definition LOW :: string where "LOW = ''low''"

text \<open>
  The run-time value of a property typed \<^verbatim>\<open>number\<close>. Every number the modelled code
  computes is integer valued and far below \<open>2 ^ 53\<close>, so \<open>Num\<close> carries an \<open>int\<close>;
  \<open>NaN\<close> is the not-a-number value. \<open>Null\<close> is the value \<^verbatim>\<open>null\<close>, which such a property
  holds after \<^verbatim>\<open>JSON.parse\<close> of a text in which \<^verbatim>\<open>JSON.stringify\<close> wrote a \<open>NaN\<close>.
\<close>

datatype number = Num int | NaN | Null

record ComplianceLevel =
  pass :: bool
  violations :: nat

record LevelAAA =
  not_tested :: bool

record WcagCompliance =
  level_a :: ComplianceLevel
  level_aa :: ComplianceLevel
  level_aaa :: LevelAAA

record VisualEvidence =
  frame_timestamp :: string
  description :: string
  frame_image_url :: "string option"

record CodeEvidence =
  "file" :: string
  line :: int
  snippet :: string

record SuggestedFix =
  code :: string
  explanation :: string

record Violation =
  violation_id :: "string option"
  severity :: "string option"
  wcag_criterion :: string
  title :: string
  description :: string
  visual_evidence :: "VisualEvidence option"
  code_evidence :: "CodeEvidence option"
  reasoning :: "string option"
  user_impact :: string
  suggested_fix :: SuggestedFix

record AuditSummary =
  total_violations :: nat
  critical :: nat
  high :: nat
  medium :: nat
  low :: nat

record AuditReport =
  overall_score :: number
  wcag_compliance :: WcagCompliance
  violations :: "Violation list"
  summary :: AuditSummary
  analyzed_at :: "string option"

record User =
  userId :: string
  email :: string
  passwordHash :: string
  displayName :: string
  createdAt :: string
  lastLoginAt :: string

text \<open>\<^verbatim>\<open>Partial<Project>\<close>: every property optional, \<open>None\<close> when the key is absent.\<close>

record Partial_Project =
  projectId :: "string option"
  userId :: "string option"
  projectName :: "string option"
  websiteUrl :: "string option"
  description :: "string option"
  createdAt :: "string option"
  updatedAt :: "string option"
  auditCount :: "int option"
  latestScore :: "number option"

record Project =
  projectId :: string
  userId :: string
  projectName :: string
  websiteUrl :: "string option"
  description :: "string option"
  createdAt :: string
  updatedAt :: string
  auditCount :: int
  latestScore :: number

record WcagFlags =
  levelA :: bool
  levelAA :: bool
  levelAAA :: bool

record SeverityCounts =
  critical :: nat
  high :: nat
  medium :: nat
  low :: nat

record AuditRecord =
  auditId :: string
  projectId :: string
  userId :: string
  auditVersion :: int
  timestamp :: string
  accessibilityScore :: number
  wcagCompliance :: WcagFlags
  totalViolations :: nat
  violationsBySeverity :: SeverityCounts
  fullReport :: AuditReport
  "notes" :: "string option"

section \<open>Scoring engine (utils/scoring.ts)\<close>

subsection \<open>calculateAccessibilityScore\<close>

text \<open>
  \<^verbatim>\<open>weights\<close> is an object literal with the four severities as its own properties. A
  property read \<^verbatim>\<open>weights[k]\<close> also finds what every object inherits from
  \<^verbatim>\<open>Object.prototype\<close>: functions, and the prototype object itself for \<^verbatim>\<open>__proto__\<close>.
\<close>

definition weights :: "(string \<times> int) list" where
  "weights = [(CRITICAL, 15), (HIGH, 8), (MEDIUM, 4), (LOW, 2)]"

definition Object_prototype_keys :: "string list" where
  "Object_prototype_keys =
     [''constructor'', ''hasOwnProperty'', ''isPrototypeOf'', ''propertyIsEnumerable'',
      ''toLocaleString'', ''toString'', ''valueOf'', ''__proto__'',
      ''__defineGetter__'', ''__defineSetter__'', ''__lookupGetter__'', ''__lookupSetter__'']"

datatype property = Own int | Inherited | Undefined

text \<open>A missing severity is the value \<^verbatim>\<open>undefined\<close>, read as the key \<^verbatim>\<open>"undefined"\<close>.\<close>

definition weights_get :: "string option \<Rightarrow> property" where
  "weights_get k =
     (let key = (case k of None \<Rightarrow> ''undefined'' | Some s \<Rightarrow> s)
      in case map_of weights key of
           Some w \<Rightarrow> Own w
         | None \<Rightarrow> if key \<in> set Object_prototype_keys then Inherited else Undefined)"

text \<open>
  \<^verbatim>\<open>weights[violation.severity] || 0\<close> as the number that \<^verbatim>\<open>score -= ...\<close> subtracts:
  \<^verbatim>\<open>undefined\<close> and \<^verbatim>\<open>0\<close> are falsy and give \<open>0\<close>; an inherited function or object is
  truthy, is kept, and converts to \<open>NaN\<close>.
\<close>

fun or_0 :: "property \<Rightarrow> number" where
  "or_0 (Own w) = (if w = 0 then Num 0 else Num w)"
| "or_0 Inherited = NaN"
| "or_0 Undefined = Num 0"

text \<open>Arithmetic converts its operands to numbers: \<^verbatim>\<open>null\<close> becomes \<open>0\<close>.\<close>

fun ToNumber :: "number \<Rightarrow> number" where
  "ToNumber Null = Num 0"
| "ToNumber (Num a) = Num a"
| "ToNumber NaN = NaN"

fun minus_number :: "number \<Rightarrow> number \<Rightarrow> number" where
  "minus_number (Num a) (Num b) = Num (a - b)"
| "minus_number (Num a) Null = Num a"
| "minus_number Null (Num b) = Num (- b)"
| "minus_number Null Null = Num 0"
| "minus_number _ _ = NaN"

text \<open>\<^verbatim>\<open>Math.round\<close> on an integer-valued number, and \<^verbatim>\<open>Math.max(0, x)\<close>.\<close>

fun Math_round :: "number \<Rightarrow> number" where
  "Math_round (Num a) = Num (round (real_of_int a))"
| "Math_round NaN = NaN"
| "Math_round Null = Num 0"

fun Math_max_0 :: "number \<Rightarrow> number" where
  "Math_max_0 (Num a) = Num (max 0 a)"
| "Math_max_0 NaN = NaN"
| "Math_max_0 Null = Num 0"

definition calculateAccessibilityScore :: "Violation list \<Rightarrow> number" where
  "calculateAccessibilityScore vs =
     (let score = fold (\<lambda>violation score. minus_number score (or_0 (weights_get (severity violation))))
                       vs (Num 100)
      in Math_max_0 (Math_round score))"

subsection \<open>determineWCAGCompliance\<close>

text \<open>
  The three regular expressions are alternations of \<^verbatim>\<open>^\<close>-anchored sequences of literal
  characters and digit classes, with no end anchor and no flags. \<^verbatim>\<open>regex.test(s)\<close> is
  then true exactly when one alternative matches a prefix of \<open>s\<close>.
\<close>

datatype atom = Lit char | Range char char

type_synonym regex = "atom list list"

fun atom_matches :: "atom \<Rightarrow> char \<Rightarrow> bool" where
  "atom_matches (Lit c) x = (x = c)"
| "atom_matches (Range a b) x =
     ((of_char a :: nat) \<le> of_char x \<and> (of_char x :: nat) \<le> of_char b)"

fun matches_at_start :: "atom list \<Rightarrow> string \<Rightarrow> bool" where
  "matches_at_start [] s = True"
| "matches_at_start (a # as) [] = False"
| "matches_at_start (a # as) (x # xs) = (atom_matches a x \<and> matches_at_start as xs)"

definition test :: "regex \<Rightarrow> string \<Rightarrow> bool" where
  "test re s = list_ex (\<lambda>alt. matches_at_start alt s) re"

definition lit :: "string \<Rightarrow> atom list" where
  "lit s = map Lit s"

definition digits :: "char \<Rightarrow> char \<Rightarrow> atom list" where
  "digits a b = [Range a b]"

definition levelA_regex :: regex where
  "levelA_regex =
     [lit ''1.1.1'',
      lit ''1.2.'' @ digits CHR ''1'' CHR ''3'',
      lit ''1.3.'' @ digits CHR ''1'' CHR ''3'',
      lit ''1.4.1'',
      lit ''2.1.'' @ digits CHR ''1'' CHR ''2'',
      lit ''2.2.'' @ digits CHR ''1'' CHR ''2'',
      lit ''2.3.1'',
      lit ''2.4.'' @ digits CHR ''1'' CHR ''4'',
      lit ''3.1.1'',
      lit ''3.2.'' @ digits CHR ''1'' CHR ''2'',
      lit ''3.3.'' @ digits CHR ''1'' CHR ''2'',
      lit ''4.1.'' @ digits CHR ''1'' CHR ''2'']"

definition levelAA_regex :: regex where
  "levelAA_regex =
     [lit ''1.2.'' @ digits CHR ''4'' CHR ''5'',
      lit ''1.4.'' @ digits CHR ''3'' CHR ''5'',
      lit ''2.4.'' @ digits CHR ''5'' CHR ''7'',
      lit ''3.1.2'',
      lit ''3.2.'' @ digits CHR ''3'' CHR ''4'',
      lit ''3.3.'' @ digits CHR ''3'' CHR ''4'']"

definition levelAAA_regex :: regex where
  "levelAAA_regex =
     [lit ''1.2.'' @ digits CHR ''6'' CHR ''9'',
      lit ''1.4.'' @ digits CHR ''6'' CHR ''9'',
      lit ''2.2.'' @ digits CHR ''3'' CHR ''6'',
      lit ''2.3.'' @ digits CHR ''2'' CHR ''3'',
      lit ''2.4.8'',
      lit ''2.4.9'',
      lit ''2.4.10'',
      lit ''3.1.'' @ digits CHR ''3'' CHR ''6'',
      lit ''3.2.5'',
      lit ''3.3.'' @ digits CHR ''5'' CHR ''6'']"

definition checkLevel :: "Violation list \<Rightarrow> regex \<Rightarrow> Violation list" where
  "checkLevel vs re = filter (\<lambda>v. test re (wcag_criterion v)) vs"

definition determineWCAGCompliance :: "Violation list \<Rightarrow> WcagCompliance" where
  "determineWCAGCompliance vs =
     (let levelAViolations = checkLevel vs levelA_regex;
          levelAAViolations = checkLevel vs levelAA_regex;
          levelAAAViolations = checkLevel vs levelAAA_regex
      in \<lparr>level_a = \<lparr>pass = (length levelAViolations = 0),
                      ComplianceLevel.violations = length levelAViolations\<rparr>,
          level_aa = \<lparr>pass = (length levelAViolations = 0 \<and> length levelAAViolations = 0),
                       ComplianceLevel.violations = length levelAAViolations\<rparr>,
          level_aaa = \<lparr>not_tested = True\<rparr>\<rparr>)"

subsection \<open>generateAuditReport\<close>

text \<open>
  \<open>stamp\<close> is what \<^verbatim>\<open>new Date().toISOString()\<close> returns at the call. The strict comparison
  \<^verbatim>\<open>v.severity === Severity.CRITICAL\<close> is equality with the enum's string.
\<close>

definition generateAuditReport :: "string \<Rightarrow> Violation list \<Rightarrow> AuditReport" where
  "generateAuditReport stamp vs =
     (let overall_score = calculateAccessibilityScore vs;
          wcag_compliance = determineWCAGCompliance vs;
          summary = \<lparr>total_violations = length vs,
                     AuditSummary.critical = length (filter (\<lambda>v. severity v = Some CRITICAL) vs),
                     AuditSummary.high = length (filter (\<lambda>v. severity v = Some HIGH) vs),
                     AuditSummary.medium = length (filter (\<lambda>v. severity v = Some MEDIUM) vs),
                     AuditSummary.low = length (filter (\<lambda>v. severity v = Some LOW) vs)\<rparr>
      in \<lparr>overall_score = overall_score,
          wcag_compliance = wcag_compliance,
          AuditReport.violations = vs,
          summary = summary,
          analyzed_at = Some stamp\<rparr>)"

section \<open>Storage service (services/storage.ts)\<close>

subsection \<open>The key-value store and errors\<close>

text \<open>
  \<^verbatim>\<open>localStorage\<close> is one string-keyed map. The key prefixes \<^verbatim>\<open>user:\<close>, \<^verbatim>\<open>user_email:\<close>,
  \<^verbatim>\<open>project:\<close>, \<^verbatim>\<open>user_projects:\<close>, \<^verbatim>\<open>audit:\<close> and \<^verbatim>\<open>project_audits:\<close> partition its keys,
  and each value is the JSON text of one record type. The model keeps one map per prefix,
  indexed by the part of the key after the prefix. A stored value is the record that
  \<^verbatim>\<open>JSON.parse\<close> gives back from the text \<^verbatim>\<open>JSON.stringify\<close> wrote: strings, integers,
  booleans, lists and absent optional properties come back as they were, and a \<open>NaN\<close>
  comes back as \<^verbatim>\<open>null\<close>. The functions \<open>JSON_...\<close> below are that round trip for the
  records that hold a number which can be \<open>NaN\<close>.
\<close>

record Storage =
  user :: "string \<rightharpoonup> User"
  user_email :: "string \<rightharpoonup> string"
  project :: "string \<rightharpoonup> Project"
  user_projects :: "string \<rightharpoonup> string list"
  audit :: "string \<rightharpoonup> AuditRecord"
  project_audits :: "string \<rightharpoonup> string list"

fun JSON_number :: "number \<Rightarrow> number" where
  "JSON_number NaN = Null"
| "JSON_number (Num a) = Num a"
| "JSON_number Null = Null"

definition JSON_AuditReport :: "AuditReport \<Rightarrow> AuditReport" where
  "JSON_AuditReport r = r\<lparr>overall_score := JSON_number (overall_score r)\<rparr>"

definition JSON_AuditRecord :: "AuditRecord \<Rightarrow> AuditRecord" where
  "JSON_AuditRecord a =
     a\<lparr>accessibilityScore := JSON_number (accessibilityScore a),
       fullReport := JSON_AuditReport (fullReport a)\<rparr>"

definition JSON_Project :: "Project \<Rightarrow> Project" where
  "JSON_Project p = p\<lparr>Project.latestScore := JSON_number (Project.latestScore p)\<rparr>"

text \<open>
  One constructor for each \<^verbatim>\<open>new Error(...)\<close> of the source:
  \<^verbatim>\<open>"Not found"\<close>, \<^verbatim>\<open>"An account with this email already exists"\<close>,
  \<^verbatim>\<open>"Too many login attempts. Please try again in ${minutesLeft} minutes."\<close>,
  \<^verbatim>\<open>"Invalid email or password"\<close>, \<^verbatim>\<open>"Project not found"\<close>, \<^verbatim>\<open>"Unauthorized"\<close>.
\<close>

datatype error =
    Not_found
  | Account_exists
  | Too_many_attempts int
  | Invalid_email_or_password
  | Project_not_found
  | Unauthorized

definition storageAPI_get :: "('k \<rightharpoonup> 'v) \<Rightarrow> 'k \<Rightarrow> error + 'v" where
  "storageAPI_get m key = (case m key of None \<Rightarrow> Inl Not_found | Some val \<Rightarrow> Inr val)"

text \<open>\<^verbatim>\<open>try { body } catch { handler }\<close> for a body that changes no state before it throws.\<close>

definition try_catch :: "error + 'a \<Rightarrow> (error \<Rightarrow> error + 'a) \<Rightarrow> error + 'a" where
  "try_catch body handler = (case body of Inl e \<Rightarrow> handler e | Inr x \<Rightarrow> Inr x)"

subsection \<open>Security utilities\<close>

definition MAX_LOGIN_ATTEMPTS :: int where
  "MAX_LOGIN_ATTEMPTS = 5"

definition LOCKOUT_DURATION :: int where
  "LOCKOUT_DURATION = 15 * 60 * 1000"

record Attempt =
  count :: int
  lastAttempt :: int

definition replace_all :: "char \<Rightarrow> string \<Rightarrow> string \<Rightarrow> string" where
  "replace_all c r s = concat (map (\<lambda>x. if x = c then r else [x]) s)"

definition sanitizeInput :: "string \<Rightarrow> string" where
  "sanitizeInput input =
     replace_all CHR ''/'' ''&#x2F;''
       (replace_all (CHR 0x27) ''&#x27;''
         (replace_all (CHR 0x22) ''&quot;''
           (replace_all CHR ''>'' ''&gt;''
             (replace_all CHR ''<'' ''&lt;'' input))))"

text \<open>
  \<^verbatim>\<open>String.prototype.toLowerCase\<close> on the ASCII letters; other bytes are kept, so the
  model is that of ASCII email addresses. The properties below use it only as the function
  that forms the index key.
\<close>

definition toLowerCase :: "string \<Rightarrow> string" where
  "toLowerCase s =
     map (\<lambda>c. let n = (of_char c :: nat) in if 65 \<le> n \<and> n \<le> 90 then char_of (n + 32) else c) s"

subsection \<open>User authentication\<close>

text \<open>
  \<open>hashPassword\<close> (PBKDF2 over a fixed salt) is a parameter of the model: a function of the
  password alone. \<open>fresh\<close> is the generated part \<^verbatim>\<open>${Date.now()}_${random}\<close> of a new
  identifier, \<open>stamp\<close> the ISO time of the call and \<open>now\<close> the value of \<^verbatim>\<open>Date.now()\<close>.

  In \<open>createUser\<close> the \<^verbatim>\<open>throw\<close> for an existing account stands inside the
  \<^verbatim>\<open>try\<close> block whose \<^verbatim>\<open>catch\<close> is empty.
\<close>

definition createUser ::
  "(string \<Rightarrow> string) \<Rightarrow> string \<Rightarrow> string \<Rightarrow> string \<Rightarrow> string \<Rightarrow> string \<Rightarrow> Storage
     \<Rightarrow> (error + User) \<times> Storage" where
  "createUser hashPassword fresh stamp email' password displayName' st =
     (let emailKey = toLowerCase email';
          guard = try_catch
                    (case storageAPI_get (user_email st) emailKey of
                       Inl e \<Rightarrow> Inl e
                     | Inr _ \<Rightarrow> Inl Account_exists)
                    (\<lambda>_. Inr ())
      in case guard of
           Inl e \<Rightarrow> (Inl e, st)
         | Inr _ \<Rightarrow>
             (let userId' = ''user_'' @ fresh;
                  passwordHash' = hashPassword password;
                  user' = \<lparr>User.userId = userId',
                           email = toLowerCase email',
                           passwordHash = passwordHash',
                           displayName = sanitizeInput displayName',
                           User.createdAt = stamp,
                           lastLoginAt = stamp\<rparr>;
                  st1 = st\<lparr>user := (user st)(userId' \<mapsto> user')\<rparr>;
                  st2 = st1\<lparr>user_email := (user_email st1)(emailKey \<mapsto> userId')\<rparr>
              in (Inr user', st2)))"

text \<open>The rate-limit block at the head of \<open>loginUser\<close>; it throws outside the \<^verbatim>\<open>try\<close>.\<close>

definition check_rate_limit ::
  "int \<Rightarrow> string \<Rightarrow> (string \<rightharpoonup> Attempt) \<Rightarrow> error + (string \<rightharpoonup> Attempt)" where
  "check_rate_limit now emailLower loginAttempts =
     (case loginAttempts emailLower of
        None \<Rightarrow> Inr loginAttempts
      | Some attempts \<Rightarrow>
          if count attempts \<ge> MAX_LOGIN_ATTEMPTS then
            (let timeSinceLast = now - lastAttempt attempts
             in if timeSinceLast < LOCKOUT_DURATION then
                  (let minutesLeft = \<lceil>real_of_int (LOCKOUT_DURATION - timeSinceLast) / 60000\<rceil>
                   in Inl (Too_many_attempts minutesLeft))
                else Inr (loginAttempts(emailLower := None)))
          else Inr loginAttempts)"

text \<open>The body of the \<^verbatim>\<open>try\<close> block up to the password comparison.\<close>

definition verify_credentials ::
  "(string \<Rightarrow> string) \<Rightarrow> string \<Rightarrow> string \<Rightarrow> Storage \<Rightarrow> error + string \<times> User" where
  "verify_credentials hashPassword emailLower password st =
     (case storageAPI_get (user_email st) emailLower of
        Inl e \<Rightarrow> Inl e
      | Inr userId' \<Rightarrow>
          (case storageAPI_get (user st) userId' of
             Inl e \<Rightarrow> Inl e
           | Inr user' \<Rightarrow>
               if hashPassword password \<noteq> passwordHash user'
               then Inl Invalid_email_or_password
               else Inr (userId', user')))"

definition loginUser ::
  "(string \<Rightarrow> string) \<Rightarrow> int \<Rightarrow> string \<Rightarrow> string \<Rightarrow> string
     \<Rightarrow> (string \<rightharpoonup> Attempt) \<times> Storage
     \<Rightarrow> (error + User) \<times> (string \<rightharpoonup> Attempt) \<times> Storage" where
  "loginUser hashPassword now stamp email' password state =
     (let loginAttempts = fst state;
          st = snd state;
          emailLower = toLowerCase email'
      in case check_rate_limit now emailLower loginAttempts of
           Inl e \<Rightarrow> (Inl e, loginAttempts, st)
         | Inr loginAttempts1 \<Rightarrow>
             (case verify_credentials hashPassword emailLower password st of
                Inr (userId', user0) \<Rightarrow>
                  (let loginAttempts2 = loginAttempts1(emailLower := None);
                       user' = user0\<lparr>lastLoginAt := stamp\<rparr>
                   in (Inr user', loginAttempts2, st\<lparr>user := (user st)(userId' \<mapsto> user')\<rparr>))
              | Inl _ \<Rightarrow>
                  (let current = (case loginAttempts1 emailLower of
                                    Some a \<Rightarrow> a
                                  | None \<Rightarrow> \<lparr>count = 0, lastAttempt = 0\<rparr>)
                   in (Inl Invalid_email_or_password,
                       loginAttempts1(emailLower \<mapsto> \<lparr>count = count current + 1, lastAttempt = now\<rparr>),
                       st))))"

subsection \<open>Project management\<close>

text \<open>A string is truthy when it is not empty; an absent optional argument is \<open>None\<close>.\<close>

definition createProject ::
  "string \<Rightarrow> string \<Rightarrow> string \<Rightarrow> string \<Rightarrow> string option \<Rightarrow> string option \<Rightarrow> Storage
     \<Rightarrow> Project \<times> Storage" where
  "createProject fresh stamp userId' projectName' websiteUrl' description' st =
     (let projectId' = ''proj_'' @ fresh;
          project' = \<lparr>Project.projectId = projectId',
                      Project.userId = userId',
                      Project.projectName = sanitizeInput projectName',
                      Project.websiteUrl =
                        (case websiteUrl' of
                           Some w \<Rightarrow> if w \<noteq> [] then Some (sanitizeInput w) else None
                         | None \<Rightarrow> None),
                      Project.description =
                        (case description' of
                           Some d \<Rightarrow> if d \<noteq> [] then Some (sanitizeInput d) else None
                         | None \<Rightarrow> None),
                      Project.createdAt = stamp,
                      Project.updatedAt = stamp,
                      Project.auditCount = 0,
                      Project.latestScore = Num 0\<rparr>;
          st1 = st\<lparr>project := (project st)(projectId' \<mapsto> JSON_Project project')\<rparr>;
          st2 = (case storageAPI_get (user_projects st1) userId' of
                   Inr projectIds \<Rightarrow>
                     st1\<lparr>user_projects := (user_projects st1)(userId' \<mapsto> projectIds @ [projectId'])\<rparr>
                 | Inl _ \<Rightarrow>
                     st1\<lparr>user_projects := (user_projects st1)(userId' \<mapsto> [projectId'])\<rparr>)
      in (project', st2))"

definition getProject :: "string \<Rightarrow> Storage \<Rightarrow> Project option" where
  "getProject projectId' st =
     (case storageAPI_get (project st) projectId' of Inr p \<Rightarrow> Some p | Inl _ \<Rightarrow> None)"

definition sanitize_if_present :: "string option \<Rightarrow> string option" where
  "sanitize_if_present x =
     (case x of Some s \<Rightarrow> if s \<noteq> [] then Some (sanitizeInput s) else Some s | None \<Rightarrow> None)"

text \<open>The object spread \<^verbatim>\<open>{...project, ...sanitizedUpdates, updatedAt}\<close>, property by property.\<close>

definition spread :: "'a \<Rightarrow> 'a option \<Rightarrow> 'a" where
  "spread old new = (case new of Some v \<Rightarrow> v | None \<Rightarrow> old)"

definition updateProject ::
  "string \<Rightarrow> string \<Rightarrow> Partial_Project \<Rightarrow> Storage \<Rightarrow> (error + unit) \<times> Storage" where
  "updateProject stamp projectId' updates st =
     (case getProject projectId' st of
        None \<Rightarrow> (Inl Project_not_found, st)
      | Some project' \<Rightarrow>
          (let sanitizedUpdates =
                 updates\<lparr>Partial_Project.projectName :=
                           sanitize_if_present (Partial_Project.projectName updates),
                         Partial_Project.websiteUrl :=
                           sanitize_if_present (Partial_Project.websiteUrl updates),
                         Partial_Project.description :=
                           sanitize_if_present (Partial_Project.description updates)\<rparr>;
               updatedProject =
                 \<lparr>Project.projectId =
                    spread (Project.projectId project') (Partial_Project.projectId sanitizedUpdates),
                  Project.userId =
                    spread (Project.userId project') (Partial_Project.userId sanitizedUpdates),
                  Project.projectName =
                    spread (Project.projectName project') (Partial_Project.projectName sanitizedUpdates),
                  Project.websiteUrl =
                    (case Partial_Project.websiteUrl sanitizedUpdates of
                       Some w \<Rightarrow> Some w | None \<Rightarrow> Project.websiteUrl project'),
                  Project.description =
                    (case Partial_Project.description sanitizedUpdates of
                       Some d \<Rightarrow> Some d | None \<Rightarrow> Project.description project'),
                  Project.createdAt =
                    spread (Project.createdAt project') (Partial_Project.createdAt sanitizedUpdates),
                  Project.updatedAt = stamp,
                  Project.auditCount =
                    spread (Project.auditCount project') (Partial_Project.auditCount sanitizedUpdates),
                  Project.latestScore =
                    spread (Project.latestScore project') (Partial_Project.latestScore sanitizedUpdates)\<rparr>
           in (Inr (),
               st\<lparr>project := (project st)(projectId' \<mapsto> JSON_Project updatedProject)\<rparr>)))"

subsection \<open>Audit management\<close>

text \<open>
  \<open>saveAudit\<close> reads the clock three times: \<open>analyzedAt\<close> inside
  \<open>generateAuditReport\<close>, \<open>recordedAt\<close> for the record's \<open>timestamp\<close> and \<open>updatedAt'\<close>
  inside \<open>updateProject\<close>. It returns the record it built and stores its JSON text.

  The loop of \<open>getProjectAudits\<close> skips the identifiers whose record is missing;
  \<^verbatim>\<open>Array.prototype.sort\<close> is stable, here descending by \<open>auditVersion\<close>.
\<close>

definition getProjectAudits :: "string \<Rightarrow> Storage \<Rightarrow> AuditRecord list" where
  "getProjectAudits projectId' st =
     (case storageAPI_get (project_audits st) projectId' of
        Inl _ \<Rightarrow> []
      | Inr auditIds \<Rightarrow>
          (let audits = concat (map (\<lambda>auditId'.
                            case storageAPI_get (audit st) auditId' of
                              Inr a \<Rightarrow> [a]
                            | Inl _ \<Rightarrow> []) auditIds)
           in sort_key (\<lambda>a. - auditVersion a) audits))"

definition deleteProject :: "string \<Rightarrow> string \<Rightarrow> Storage \<Rightarrow> Storage" where
  "deleteProject projectId' userId' st =
     (let audits = getProjectAudits projectId' st;
          st1 = fold (\<lambda>a s. s\<lparr>audit := (audit s)(auditId a := None)\<rparr>) audits st;
          st2 = st1\<lparr>project_audits := (project_audits st1)(projectId' := None)\<rparr>;
          st3 = st2\<lparr>project := (project st2)(projectId' := None)\<rparr>
      in case storageAPI_get (user_projects st3) userId' of
           Inr projectIds \<Rightarrow>
             st3\<lparr>user_projects :=
                   (user_projects st3)(userId' \<mapsto> filter (\<lambda>i. i \<noteq> projectId') projectIds)\<rparr>
         | Inl _ \<Rightarrow> st3)"

definition saveAudit ::
  "string \<Rightarrow> string \<Rightarrow> string \<Rightarrow> string \<Rightarrow> string \<Rightarrow> string \<Rightarrow> AuditReport \<Rightarrow> Storage
     \<Rightarrow> (error + AuditRecord) \<times> Storage" where
  "saveAudit fresh analyzedAt recordedAt updatedAt' projectId' userId' auditReport st =
     (case getProject projectId' st of
        None \<Rightarrow> (Inl Project_not_found, st)
      | Some project' \<Rightarrow>
          if Project.userId project' \<noteq> userId' then (Inl Unauthorized, st)
          else
            (let auditVersion' = Project.auditCount project' + 1;
                 auditId' = ''aud_'' @ fresh;
                 deterministicReport =
                   generateAuditReport analyzedAt (AuditReport.violations auditReport);
                 audit' =
                   \<lparr>auditId = auditId',
                    AuditRecord.projectId = projectId',
                    AuditRecord.userId = userId',
                    auditVersion = auditVersion',
                    timestamp = recordedAt,
                    accessibilityScore = overall_score deterministicReport,
                    wcagCompliance =
                      \<lparr>levelA = pass (level_a (wcag_compliance deterministicReport)),
                       levelAA = pass (level_aa (wcag_compliance deterministicReport)),
                       levelAAA = (\<not> not_tested (level_aaa (wcag_compliance deterministicReport)))\<rparr>,
                    totalViolations = total_violations (summary deterministicReport),
                    violationsBySeverity =
                      \<lparr>SeverityCounts.critical = AuditSummary.critical (summary deterministicReport),
                       SeverityCounts.high = AuditSummary.high (summary deterministicReport),
                       SeverityCounts.medium = AuditSummary.medium (summary deterministicReport),
                       SeverityCounts.low = AuditSummary.low (summary deterministicReport)\<rparr>,
                    fullReport = deterministicReport,
                    notes = Some []\<rparr>;
                 st1 = st\<lparr>audit := (audit st)(auditId' \<mapsto> JSON_AuditRecord audit')\<rparr>;
                 st2 = (case storageAPI_get (project_audits st1) projectId' of
                          Inr auditIds \<Rightarrow>
                            st1\<lparr>project_audits :=
                                  (project_audits st1)(projectId' \<mapsto> auditIds @ [auditId'])\<rparr>
                        | Inl _ \<Rightarrow>
                            st1\<lparr>project_audits := (project_audits st1)(projectId' \<mapsto> [auditId'])\<rparr>)
             in case updateProject updatedAt' projectId'
                       \<lparr>Partial_Project.projectId = None,
                        Partial_Project.userId = None,
                        Partial_Project.projectName = None,
                        Partial_Project.websiteUrl = None,
                        Partial_Project.description = None,
                        Partial_Project.createdAt = None,
                        Partial_Project.updatedAt = None,
                        Partial_Project.auditCount = Some auditVersion',
                        Partial_Project.latestScore = Some (accessibilityScore audit')\<rparr> st2 of
                  (Inl e, st3) \<Rightarrow> (Inl e, st3)
                | (Inr _, st3) \<Rightarrow> (Inr audit', st3)))"

definition updateAuditNotes :: "string \<Rightarrow> string \<Rightarrow> Storage \<Rightarrow> (error + unit) \<times> Storage" where
  "updateAuditNotes auditId' notes' st =
     (case storageAPI_get (audit st) auditId' of
        Inl e \<Rightarrow> (Inl e, st)
      | Inr a \<Rightarrow>
          (Inr (),
           st\<lparr>audit := (audit st)
                  (auditId' \<mapsto> JSON_AuditRecord (a\<lparr>notes := Some (sanitizeInput notes')\<rparr>))\<rparr>))"

definition deleteAudit :: "string \<Rightarrow> string \<Rightarrow> Storage \<Rightarrow> Storage" where
  "deleteAudit auditId' projectId' st =
     (let st1 = st\<lparr>audit := (audit st)(auditId' := None)\<rparr>
      in case storageAPI_get (project_audits st1) projectId' of
           Inr auditIds \<Rightarrow>
             st1\<lparr>project_audits :=
                   (project_audits st1)(projectId' \<mapsto> filter (\<lambda>i. i \<noteq> auditId') auditIds)\<rparr>
         | Inl _ \<Rightarrow> st1)"

section \<open>Specification-side definitions and sample data\<close>

text \<open>
  The score in the words of the specification: start at 100, subtract critical 15, high 8,
  medium 4, low 2 and nothing for any other or a missing severity, clamp at 0, round.
\<close>

definition spec_weight :: "string option \<Rightarrow> int" where
  "spec_weight sev =
     (if sev = Some ''critical'' then 15
      else if sev = Some ''high'' then 8
      else if sev = Some ''medium'' then 4
      else if sev = Some ''low'' then 2
      else 0)"

definition spec_score :: "Violation list \<Rightarrow> int" where
  "spec_score vs = max 0 (round (real_of_int (100 - (\<Sum>v\<leftarrow>vs. spec_weight (severity v)))))"

text \<open>A violation with the given severity and criterion and empty texts elsewhere.\<close>

definition a_violation :: "string option \<Rightarrow> string \<Rightarrow> Violation" where
  "a_violation sev criterion =
     \<lparr>violation_id = None, severity = sev, wcag_criterion = criterion, title = [],
      Violation.description = [], visual_evidence = None, code_evidence = None,
      reasoning = None, user_impact = [],
      suggested_fix = \<lparr>code = [], explanation = []\<rparr>\<rparr>"

text \<open>The store of a browser profile that has never run the application.\<close>

definition empty_storage :: Storage where
  "empty_storage =
     \<lparr>user = Map.empty, user_email = Map.empty, project = Map.empty,
      user_projects = Map.empty, audit = Map.empty, project_audits = Map.empty\<rparr>"

text \<open>A report as a caller may submit it: the given violations under forged derived fields.\<close>

definition forged_report :: "Violation list \<Rightarrow> AuditReport" where
  "forged_report vs =
     \<lparr>overall_score = Num 100,
      wcag_compliance = \<lparr>level_a = \<lparr>pass = True, ComplianceLevel.violations = 0\<rparr>,
                         level_aa = \<lparr>pass = True, ComplianceLevel.violations = 0\<rparr>,
                         level_aaa = \<lparr>not_tested = False\<rparr>\<rparr>,
      AuditReport.violations = vs,
      summary = \<lparr>total_violations = 0, AuditSummary.critical = 0, AuditSummary.high = 0,
                 AuditSummary.medium = 0, AuditSummary.low = 0\<rparr>,
      analyzed_at = None\<rparr>"

text \<open>
  For the examples: a stand-in for the password hash, and the store after one sign-up from
  the empty store.
\<close>

definition example_hash :: "string \<Rightarrow> string" where
  "example_hash password = rev password"

definition one_user_storage :: Storage where
  "one_user_storage =
     snd (createUser example_hash ''1'' ''t0'' ''ann@example.com'' ''secret'' ''Ann'' empty_storage)"

text \<open>The store after one project of \<^verbatim>\<open>alice\<close> and one audit saved for it.\<close>

definition one_audit_storage :: Storage where
  "one_audit_storage =
     snd (saveAudit ''2'' ''t2'' ''t3'' ''t4'' ''proj_1'' ''alice''
            (forged_report [a_violation (Some ''critical'') ''1.4.3''])
            (snd (createProject ''1'' ''t1'' ''alice'' ''Shop'' None None empty_storage)))"

text \<open>
  Every audit record is stored under its own identifier: \<open>saveAudit\<close> writes the record
  with \<open>auditId = i\<close> under the key \<^verbatim>\<open>audit:i\<close>, and nothing else creates audit records.
  \<open>index_records_keyed\<close> is the same for the records that one project's index names.
\<close>

definition audits_keyed :: "Storage \<Rightarrow> bool" where
  "audits_keyed st = (\<forall>i r. audit st i = Some r \<longrightarrow> auditId r = i)"

definition index_records_keyed :: "string \<Rightarrow> Storage \<Rightarrow> bool" where
  "index_records_keyed projectId' st =
     (case project_audits st projectId' of
        None \<Rightarrow> True
      | Some auditIds \<Rightarrow>
          list_all (\<lambda>i. case audit st i of None \<Rightarrow> True | Some r \<Rightarrow> auditId r = i) auditIds)"

section \<open>Properties of the scoring engine\<close>

subsection \<open>The score\<close>

lemma deduction_eq:
  assumes "\<forall>k. sev = Some k \<longrightarrow> k \<notin> set Object_prototype_keys"
  shows "or_0 (weights_get sev) = Num (spec_weight sev)"
proof (cases sev)
  case None
  then show ?thesis
    by (simp add: weights_get_def weights_def Object_prototype_keys_def spec_weight_def
        CRITICAL_def HIGH_def MEDIUM_def LOW_def)
next
  case (Some k)
  with assms have "k \<notin> set Object_prototype_keys" by simp
  with Some show ?thesis
    by (simp add: weights_get_def weights_def spec_weight_def
        CRITICAL_def HIGH_def MEDIUM_def LOW_def)
qed

lemma fold_deductions:
  assumes "\<forall>v\<in>set vs. \<forall>k. severity v = Some k \<longrightarrow> k \<notin> set Object_prototype_keys"
  shows "fold (\<lambda>violation score. minus_number score (or_0 (weights_get (severity violation))))
              vs (Num a)
         = Num (a - (\<Sum>v\<leftarrow>vs. spec_weight (severity v)))"
  using assms
proof (induction vs arbitrary: a)
  case Nil
  then show ?case by simp
next
  case (Cons v vs)
  have "or_0 (weights_get (severity v)) = Num (spec_weight (severity v))"
    using Cons.prems by (intro deduction_eq) simp
  moreover have "\<forall>v\<in>set vs. \<forall>k. severity v = Some k \<longrightarrow> k \<notin> set Object_prototype_keys"
    using Cons.prems by simp
  ultimately show ?case
    using Cons.IH [of "a - spec_weight (severity v)"] by (simp add: algebra_simps)
qed

lemma spec_weight_nonneg: "0 \<le> spec_weight sev"
  by (simp add: spec_weight_def)

lemma sum_spec_weight_nonneg: "0 \<le> (\<Sum>v\<leftarrow>vs. spec_weight (severity v))"
  by (induction vs) (simp_all add: spec_weight_nonneg)

lemma Math_round_Num: "Math_round (Num a) = Num a"
  by (simp only: Math_round.simps round_of_int)

lemma spec_score_int: "spec_score vs = max 0 (100 - (\<Sum>v\<leftarrow>vs. spec_weight (severity v)))"
  by (simp only: spec_score_def round_of_int)

text \<open>
  On the lists the \<^verbatim>\<open>Severity\<close> type describes, and on any list in which no severity is the
  name of a property that the weight object inherits, the score is the clamped, rounded
  sum of the specification and lies between 0 and 100.
\<close>

lemma score_on_plain_severities:
  assumes "\<forall>v\<in>set vs. \<forall>k. severity v = Some k \<longrightarrow> k \<notin> set Object_prototype_keys"
  shows "calculateAccessibilityScore vs = Num (spec_score vs)
         \<and> 0 \<le> spec_score vs \<and> spec_score vs \<le> 100
         \<and> calculateAccessibilityScore [] = Num 100"
proof -
  have "calculateAccessibilityScore vs = Num (spec_score vs)"
    unfolding calculateAccessibilityScore_def Let_def
    by (simp only: fold_deductions [OF assms] Math_round_Num Math_max_0.simps spec_score_int)
  moreover have "0 \<le> spec_score vs" by (simp add: spec_score_int)
  moreover have "spec_score vs \<le> 100"
    using sum_spec_weight_nonneg [of vs] by (simp add: spec_score_int)
  moreover have "calculateAccessibilityScore [] = Num 100"
    by (simp add: calculateAccessibilityScore_def Math_round_Num del: Math_round.simps)
  ultimately show ?thesis by simp
qed

lemma score_on_plain_severities_example:
  "calculateAccessibilityScore
     [a_violation (Some ''critical'') ''1.4.3'', a_violation (Some ''bogus'') ''1.1.1'',
      a_violation None ''9.9.9'', a_violation (Some ''low'') ''2.4.10''] = Num 83"
  using score_on_plain_severities
          [of "[a_violation (Some ''critical'') ''1.4.3'', a_violation (Some ''bogus'') ''1.1.1'',
                a_violation None ''9.9.9'', a_violation (Some ''low'') ''2.4.10'']"]
  by (simp add: a_violation_def Object_prototype_keys_def spec_score_int spec_weight_def)

text \<open>
  Claim C2 asks that for every violation list the score be
  \<open>max 0 (round (100 - sum of the weights))\<close>, an unknown severity weighing 0, and so an
  integer between 0 and 100. The code departs from it at an unknown severity that names an
  inherited property: for the one violation of severity \<^verbatim>\<open>constructor\<close> the read
  \<^verbatim>\<open>weights["constructor"]\<close> is a function, which \<^verbatim>\<open>|| 0\<close> keeps, the subtraction gives
  \<open>NaN\<close>, and the score is \<open>NaN\<close> instead of the 100 of the formula.
\<close>

theorem score_of_inherited_key_is_NaN:
  "calculateAccessibilityScore [a_violation (Some ''constructor'') ''1.1.1''] = NaN
   \<and> spec_score [a_violation (Some ''constructor'') ''1.1.1''] = 100
   \<and> calculateAccessibilityScore [a_violation (Some ''constructor'') ''1.1.1'']
       \<noteq> Num (spec_score [a_violation (Some ''constructor'') ''1.1.1''])"
  by (simp add: calculateAccessibilityScore_def a_violation_def weights_get_def weights_def
      Object_prototype_keys_def CRITICAL_def HIGH_def MEDIUM_def LOW_def spec_score_int
      spec_weight_def)

subsection \<open>The compliance levels\<close>

lemma level_a_pass_iff:
  "pass (level_a (determineWCAGCompliance vs)) \<longleftrightarrow> checkLevel vs levelA_regex = []"
  by (simp add: determineWCAGCompliance_def Let_def)

lemma level_aa_pass_iff:
  "pass (level_aa (determineWCAGCompliance vs))
     \<longleftrightarrow> checkLevel vs levelA_regex = [] \<and> checkLevel vs levelAA_regex = []"
  by (simp add: determineWCAGCompliance_def Let_def)

lemma checkLevel_empty_iff:
  "checkLevel vs re = [] \<longleftrightarrow> (\<forall>v\<in>set vs. \<not> test re (wcag_criterion v))"
  by (simp add: checkLevel_def filter_empty_conv)

lemma level_a_match_fails_both:
  assumes "v \<in> set vs" and "test levelA_regex (wcag_criterion v)"
  shows "\<not> pass (level_a (determineWCAGCompliance vs))
         \<and> \<not> pass (level_aa (determineWCAGCompliance vs))"
  using assms unfolding level_a_pass_iff level_aa_pass_iff checkLevel_empty_iff by blast

text \<open>
  Claim C3. Level AA passes exactly when level A passes and no violation matches the
  level-AA patterns, so passing AA implies passing A. A violation with criterion
  \<^verbatim>\<open>1.1.1\<close> matches no level-AA pattern, and yet its presence (in any list, and alone)
  makes both level A and level AA fail.
\<close>

theorem level_aa_requires_level_a:
  "(pass (level_aa (determineWCAGCompliance vs))
      \<longleftrightarrow> pass (level_a (determineWCAGCompliance vs)) \<and> length (checkLevel vs levelAA_regex) = 0)
   \<and> (pass (level_aa (determineWCAGCompliance vs)) \<longrightarrow> pass (level_a (determineWCAGCompliance vs)))
   \<and> (v \<in> set vs \<and> wcag_criterion v = ''1.1.1''
        \<longrightarrow> \<not> pass (level_a (determineWCAGCompliance vs))
          \<and> \<not> pass (level_aa (determineWCAGCompliance vs)))
   \<and> (wcag_criterion v = ''1.1.1''
        \<longrightarrow> length (checkLevel [v] levelAA_regex) = 0
          \<and> \<not> pass (level_a (determineWCAGCompliance [v]))
          \<and> \<not> pass (level_aa (determineWCAGCompliance [v])))"
proof -
  have a: "test levelA_regex ''1.1.1''"
    by (simp add: test_def levelA_regex_def lit_def digits_def)
  have aa: "\<not> test levelAA_regex ''1.1.1''"
    by (simp add: test_def levelAA_regex_def lit_def digits_def)
  have iff: "pass (level_aa (determineWCAGCompliance vs))
      \<longleftrightarrow> pass (level_a (determineWCAGCompliance vs)) \<and> length (checkLevel vs levelAA_regex) = 0"
    by (simp add: level_a_pass_iff level_aa_pass_iff)
  have one: "wcag_criterion v = ''1.1.1'' \<longrightarrow> length (checkLevel [v] levelAA_regex) = 0"
    using aa by (simp add: checkLevel_def)
  have any: "v \<in> set vs \<and> wcag_criterion v = ''1.1.1''
        \<longrightarrow> \<not> pass (level_a (determineWCAGCompliance vs))
          \<and> \<not> pass (level_aa (determineWCAGCompliance vs))" for vs
    using a level_a_match_fails_both [of v vs] by simp
  show ?thesis
    using iff one any [of vs] any [of "[v]"] by simp
qed

text \<open>The theorem at the list holding one violation with criterion \<^verbatim>\<open>1.1.1\<close>.\<close>

theorem level_aa_requires_level_a_witness:
  "wcag_criterion (a_violation (Some ''low'') ''1.1.1'') = ''1.1.1''
   \<and> length (checkLevel [a_violation (Some ''low'') ''1.1.1''] levelAA_regex) = 0
   \<and> \<not> pass (level_a (determineWCAGCompliance [a_violation (Some ''low'') ''1.1.1'']))
   \<and> \<not> pass (level_aa (determineWCAGCompliance [a_violation (Some ''low'') ''1.1.1'']))"
  using level_aa_requires_level_a
          [of "[a_violation (Some ''low'') ''1.1.1'']" "a_violation (Some ''low'') ''1.1.1''"]
  by (simp add: a_violation_def)

lemma matches_at_start_append:
  "matches_at_start alt s \<Longrightarrow> matches_at_start alt (s @ t)"
  by (induction alt s rule: matches_at_start.induct) simp_all

lemma test_append: "test re s \<Longrightarrow> test re (s @ t)"
  by (auto simp: test_def list_ex_iff intro: matches_at_start_append)

text \<open>
  Claim C10. The patterns have no end anchor, so a string that extends a level-A match is a
  level-A match. The criterion \<^verbatim>\<open>2.4.10\<close>, listed in the level-AAA patterns, begins with
  \<^verbatim>\<open>2.4.1\<close> and matches the level-A patterns; a violation carrying it makes level A and
  level AA fail.
\<close>

theorem prefix_anchored_level_a_match:
  "(test levelA_regex s \<longrightarrow> test levelA_regex (s @ t))
   \<and> test levelAAA_regex ''2.4.10''
   \<and> test levelA_regex ''2.4.10''
   \<and> (v \<in> set vs \<and> wcag_criterion v = ''2.4.10''
        \<longrightarrow> \<not> pass (level_a (determineWCAGCompliance vs))
          \<and> \<not> pass (level_aa (determineWCAGCompliance vs)))"
proof -
  have a: "test levelA_regex ''2.4.10''"
    by (simp add: test_def levelA_regex_def lit_def digits_def)
  have aaa: "test levelAAA_regex ''2.4.10''"
    by (simp add: test_def levelAAA_regex_def lit_def digits_def)
  have any: "v \<in> set vs \<and> wcag_criterion v = ''2.4.10''
        \<longrightarrow> \<not> pass (level_a (determineWCAGCompliance vs))
          \<and> \<not> pass (level_aa (determineWCAGCompliance vs))"
    using a level_a_match_fails_both [of v vs] by simp
  show ?thesis
    using a aaa any test_append [of levelA_regex s t] by simp
qed

text \<open>The theorem at \<^verbatim>\<open>2.4.1\<close> extended by \<^verbatim>\<open>0\<close>, and at the list of that one violation.\<close>

theorem prefix_anchored_level_a_match_witness:
  "test levelA_regex ''2.4.1'' \<and> test levelA_regex (''2.4.1'' @ ''0'')
   \<and> \<not> pass (level_a (determineWCAGCompliance [a_violation (Some ''low'') ''2.4.10'']))
   \<and> \<not> pass (level_aa (determineWCAGCompliance [a_violation (Some ''low'') ''2.4.10'']))"
proof -
  have h: "test levelA_regex ''2.4.1''"
    by (simp add: test_def levelA_regex_def lit_def digits_def)
  show ?thesis
    using h prefix_anchored_level_a_match
          [of "''2.4.1''" "''0''" "a_violation (Some ''low'') ''2.4.10''"
              "[a_violation (Some ''low'') ''2.4.10'']"]
    by (simp add: a_violation_def)
qed

section \<open>Properties of saving an audit\<close>

lemma getProject_eq [simp]: "getProject pid st = project st pid"
  by (simp add: getProject_def storageAPI_get_def split: option.splits)

lemma JSON_AuditRecord_auditId [simp]: "auditId (JSON_AuditRecord a) = auditId a"
  by (simp add: JSON_AuditRecord_def)

lemma JSON_number_Num [simp]: "JSON_number x = Num n \<longleftrightarrow> x = Num n"
  by (cases x) simp_all

lemma saveAudit_Inr:
  assumes "saveAudit fresh ta tr tu pid uid report st = (Inr r, st')"
  shows "\<exists>p. project st pid = Some p \<and> Project.userId p = uid
           \<and> auditId r = ''aud_'' @ fresh
           \<and> AuditRecord.projectId r = pid
           \<and> AuditRecord.userId r = uid
           \<and> auditVersion r = Project.auditCount p + 1
           \<and> fullReport r = generateAuditReport ta (AuditReport.violations report)
           \<and> accessibilityScore r = overall_score (fullReport r)
           \<and> levelA (wcagCompliance r) = pass (level_a (wcag_compliance (fullReport r)))
           \<and> levelAA (wcagCompliance r) = pass (level_aa (wcag_compliance (fullReport r)))
           \<and> levelAAA (wcagCompliance r) = (\<not> not_tested (level_aaa (wcag_compliance (fullReport r))))
           \<and> totalViolations r = total_violations (summary (fullReport r))
           \<and> SeverityCounts.critical (violationsBySeverity r) = AuditSummary.critical (summary (fullReport r))
           \<and> SeverityCounts.high (violationsBySeverity r) = AuditSummary.high (summary (fullReport r))
           \<and> SeverityCounts.medium (violationsBySeverity r) = AuditSummary.medium (summary (fullReport r))
           \<and> SeverityCounts.low (violationsBySeverity r) = AuditSummary.low (summary (fullReport r))
           \<and> audit st' = (audit st)(''aud_'' @ fresh \<mapsto> JSON_AuditRecord r)
           \<and> (\<exists>p'. project st' = (project st)(pid \<mapsto> p')
                  \<and> Project.auditCount p' = auditVersion r
                  \<and> Project.latestScore p' = JSON_number (accessibilityScore r)
                  \<and> Project.userId p' = Project.userId p)"
  using assms
  by (auto simp: saveAudit_def updateProject_def Let_def storageAPI_get_def spread_def
      sanitize_if_present_def JSON_Project_def split: option.splits if_splits)

lemma saveAudit_succeeds:
  assumes "project st pid = Some p" and "Project.userId p = uid"
  shows "\<exists>r st'. saveAudit fresh ta tr tu pid uid report st = (Inr r, st')"
  using assms
  by (simp add: saveAudit_def updateProject_def Let_def storageAPI_get_def
      split: option.splits)

lemma saveAudit_ignores_derived_fields:
  "saveAudit fresh ta tr tu pid uid
     (report\<lparr>overall_score := s, wcag_compliance := w, summary := m\<rparr>) st
   = saveAudit fresh ta tr tu pid uid report st"
  by (cases "project st pid") (simp_all add: saveAudit_def Let_def)

text \<open>
  The record that a successful \<open>saveAudit\<close> returns is derived from the submitted
  violations alone, and what is stored under its identifier is the JSON round trip of it.
\<close>

lemma saveAudit_record_is_rederived:
  assumes ok: "saveAudit fresh ta tr tu pid uid report st = (Inr r, st')"
  shows "audit st' (auditId r) = Some (JSON_AuditRecord r)"
    and "fullReport r = generateAuditReport ta (AuditReport.violations report)"
    and "accessibilityScore r = calculateAccessibilityScore (AuditReport.violations report)"
    and "levelA (wcagCompliance r)
         = pass (level_a (determineWCAGCompliance (AuditReport.violations report)))"
    and "levelAA (wcagCompliance r)
         = pass (level_aa (determineWCAGCompliance (AuditReport.violations report)))"
    and "\<not> levelAAA (wcagCompliance r)"
    and "totalViolations r = length (AuditReport.violations report)"
proof -
  from saveAudit_Inr [OF ok] obtain p where
    f: "fullReport r = generateAuditReport ta (AuditReport.violations report)"
    and i: "auditId r = ''aud_'' @ fresh"
    and a: "audit st' = (audit st)(''aud_'' @ fresh \<mapsto> JSON_AuditRecord r)"
    and sc: "accessibilityScore r = overall_score (fullReport r)"
    and la: "levelA (wcagCompliance r) = pass (level_a (wcag_compliance (fullReport r)))"
    and laa: "levelAA (wcagCompliance r) = pass (level_aa (wcag_compliance (fullReport r)))"
    and laaa: "levelAAA (wcagCompliance r) = (\<not> not_tested (level_aaa (wcag_compliance (fullReport r))))"
    and tv: "totalViolations r = total_violations (summary (fullReport r))"
    by blast
  show "audit st' (auditId r) = Some (JSON_AuditRecord r)" using a i by simp
  show "fullReport r = generateAuditReport ta (AuditReport.violations report)" by (rule f)
  show "accessibilityScore r = calculateAccessibilityScore (AuditReport.violations report)"
    using sc f by (simp add: generateAuditReport_def Let_def)
  show "levelA (wcagCompliance r)
         = pass (level_a (determineWCAGCompliance (AuditReport.violations report)))"
    using la f by (simp add: generateAuditReport_def Let_def)
  show "levelAA (wcagCompliance r)
         = pass (level_aa (determineWCAGCompliance (AuditReport.violations report)))"
    using laa f by (simp add: generateAuditReport_def Let_def)
  show "\<not> levelAAA (wcagCompliance r)"
    using laaa f by (simp add: generateAuditReport_def Let_def determineWCAGCompliance_def)
  show "totalViolations r = length (AuditReport.violations report)"
    using tv f by (simp add: generateAuditReport_def Let_def)
qed

lemma createProject_eq:
  assumes "createProject fresh stamp uid name url descr st = (p, st1)"
  shows "Project.projectId p = ''proj_'' @ fresh \<and> Project.userId p = uid
         \<and> Project.auditCount p = 0 \<and> Project.latestScore p = Num 0
         \<and> project st1 = (project st)(''proj_'' @ fresh \<mapsto> p)
         \<and> audit st1 = audit st \<and> project_audits st1 = project_audits st"
  using assms
  by (auto simp: createProject_def Let_def storageAPI_get_def JSON_Project_def
      split: option.splits)

text \<open>
  Claim C1 asks that the persisted record's score, compliance, counts and full report be
  exactly the scoring engine's output for the submitted violations. The code departs from
  it where the engine's score is \<open>NaN\<close>: for the one violation of severity
  \<^verbatim>\<open>constructor\<close>, saved to a fresh project of \<^verbatim>\<open>alice\<close>, the engine and the returned
  record have the score \<open>NaN\<close>, while the record stored under the returned identifier has
  \<^verbatim>\<open>null\<close> as its \<open>accessibilityScore\<close> and as the \<open>overall_score\<close> of its \<open>fullReport\<close>.
\<close>

theorem saveAudit_persists_null_for_NaN_score:
  "\<exists>r st' a.
      saveAudit ''2'' ''t2'' ''t3'' ''t4'' ''proj_1'' ''alice''
        (forged_report [a_violation (Some ''constructor'') ''1.1.1''])
        (snd (createProject ''1'' ''t1'' ''alice'' ''Shop'' None None empty_storage))
      = (Inr r, st')
      \<and> calculateAccessibilityScore [a_violation (Some ''constructor'') ''1.1.1''] = NaN
      \<and> accessibilityScore r = NaN
      \<and> audit st' (auditId r) = Some a
      \<and> accessibilityScore a = Null
      \<and> overall_score (fullReport a) = Null
      \<and> accessibilityScore a
          \<noteq> calculateAccessibilityScore [a_violation (Some ''constructor'') ''1.1.1'']"
proof -
  let ?c = "createProject ''1'' ''t1'' ''alice'' ''Shop'' None None empty_storage"
  let ?v = "a_violation (Some ''constructor'') ''1.1.1''"
  have h1: "?c = (fst ?c, snd ?c)" by simp
  have p: "project (snd ?c) ''proj_1'' = Some (fst ?c)" "Project.userId (fst ?c) = ''alice''"
    using createProject_eq [OF h1] by simp_all
  obtain r st' where ok:
    "saveAudit ''2'' ''t2'' ''t3'' ''t4'' ''proj_1'' ''alice'' (forged_report [?v]) (snd ?c)
     = (Inr r, st')"
    using saveAudit_succeeds [OF p] by blast
  have v: "AuditReport.violations (forged_report [?v]) = [?v]"
    by (simp add: forged_report_def)
  have sc: "calculateAccessibilityScore [?v] = NaN"
    by (simp add: calculateAccessibilityScore_def a_violation_def weights_get_def weights_def
        Object_prototype_keys_def CRITICAL_def HIGH_def MEDIUM_def LOW_def)
  note rd = saveAudit_record_is_rederived [OF ok]
  have r1: "accessibilityScore r = NaN" using rd(3) v sc by simp
  have r2: "overall_score (fullReport r) = NaN"
    using rd(2) v sc by (simp add: generateAuditReport_def Let_def)
  have a1: "accessibilityScore (JSON_AuditRecord r) = Null"
    using r1 by (simp add: JSON_AuditRecord_def)
  have a2: "overall_score (fullReport (JSON_AuditRecord r)) = Null"
    using r2 by (simp add: JSON_AuditRecord_def JSON_AuditReport_def)
  show ?thesis
    using ok sc r1 rd(1) a1 a2 by auto
qed

text \<open>
  Claim C4. A project as \<open>createProject\<close> returns it has \<open>auditCount = 0\<close>. Saving, for
  its owner, a report whose violations are one critical violation of criterion
  \<^verbatim>\<open>1.4.3\<close> succeeds with \<open>auditVersion = 1\<close> and score 85; level A passes (\<^verbatim>\<open>1.4.3\<close>
  matches no level-A pattern) and level AA fails; the stored project then has
  \<open>auditCount = 1\<close> and \<open>latestScore = 85\<close>.
\<close>

theorem first_audit_of_fresh_project:
  assumes "createProject fresh1 stamp1 uid name url descr st = (p, st1)"
    and "AuditReport.violations report = [v]"
    and "severity v = Some ''critical''"
    and "wcag_criterion v = ''1.4.3''"
  shows "Project.auditCount p = 0
         \<and> \<not> test levelA_regex ''1.4.3''
         \<and> (\<exists>r st2 p'. saveAudit fresh2 analyzed recorded updated (Project.projectId p) uid report st1
                          = (Inr r, st2)
               \<and> auditVersion r = 1
               \<and> accessibilityScore r = Num 85
               \<and> pass (level_a (wcag_compliance (fullReport r)))
               \<and> \<not> pass (level_aa (wcag_compliance (fullReport r)))
               \<and> levelA (wcagCompliance r)
               \<and> \<not> levelAA (wcagCompliance r)
               \<and> project st2 (Project.projectId p) = Some p'
               \<and> Project.auditCount p' = 1
               \<and> Project.latestScore p' = Num 85)"
proof -
  note cp = createProject_eq [OF assms(1)]
  have p1: "project st1 (Project.projectId p) = Some p" using cp by simp
  obtain r st2 where ok:
    "saveAudit fresh2 analyzed recorded updated (Project.projectId p) uid report st1 = (Inr r, st2)"
    using saveAudit_succeeds [OF p1, of uid] cp by blast
  from saveAudit_Inr [OF ok] obtain q p' where
      q: "project st1 (Project.projectId p) = Some q"
      and f0: "fullReport r = generateAuditReport analyzed (AuditReport.violations report)"
      and ver0: "auditVersion r = Project.auditCount q + 1"
      and sc: "accessibilityScore r = overall_score (fullReport r)"
      and la: "levelA (wcagCompliance r) = pass (level_a (wcag_compliance (fullReport r)))"
      and laa: "levelAA (wcagCompliance r) = pass (level_aa (wcag_compliance (fullReport r)))"
      and pr: "project st2 = (project st1)(Project.projectId p \<mapsto> p')"
      and pc: "Project.auditCount p' = auditVersion r"
      and ps: "Project.latestScore p' = JSON_number (accessibilityScore r)"
    by blast
  have f: "fullReport r = generateAuditReport analyzed [v]" using f0 assms(2) by simp
  have ver: "auditVersion r = Project.auditCount p + 1" using ver0 q p1 by simp
  have nA: "\<not> test levelA_regex ''1.4.3''"
    by (simp add: test_def levelA_regex_def lit_def digits_def)
  have yAA: "test levelAA_regex ''1.4.3''"
    by (simp add: test_def levelAA_regex_def lit_def digits_def)
  have score: "calculateAccessibilityScore [v] = Num 85"
    using assms(3)
    by (simp add: calculateAccessibilityScore_def weights_get_def weights_def CRITICAL_def)
  have A: "pass (level_a (determineWCAGCompliance [v]))"
    using nA assms(4) by (simp add: determineWCAGCompliance_def checkLevel_def)
  have AA: "\<not> pass (level_aa (determineWCAGCompliance [v]))"
    using yAA assms(4) by (simp add: determineWCAGCompliance_def checkLevel_def)
  have r1: "auditVersion r = 1" using ver cp by simp
  have r2: "accessibilityScore r = Num 85"
    using sc f score by (simp add: generateAuditReport_def Let_def)
  have r3: "pass (level_a (wcag_compliance (fullReport r)))"
    using f A by (simp add: generateAuditReport_def Let_def)
  have r4: "\<not> pass (level_aa (wcag_compliance (fullReport r)))"
    using f AA by (simp add: generateAuditReport_def Let_def)
  have r5: "project st2 (Project.projectId p) = Some p'" using pr by simp
  have r6: "Project.latestScore p' = Num 85" using ps r2 by simp
  have r7: "Project.auditCount p' = 1" using pc r1 by simp
  show ?thesis
    using cp nA ok r1 r2 r3 r4 r5 r6 r7 la laa by auto
qed

text \<open>The scenario from the empty store, with a report that forges a score of 100.\<close>

theorem first_audit_of_fresh_project_witness:
  "\<exists>r st2 p'.
      saveAudit ''2'' ''t2'' ''t3'' ''t4'' ''proj_1'' ''alice''
        (forged_report [a_violation (Some ''critical'') ''1.4.3''])
        (snd (createProject ''1'' ''t1'' ''alice'' ''Shop'' None None empty_storage))
      = (Inr r, st2)
      \<and> auditVersion r = 1 \<and> accessibilityScore r = Num 85
      \<and> levelA (wcagCompliance r) \<and> \<not> levelAA (wcagCompliance r)
      \<and> project st2 ''proj_1'' = Some p'
      \<and> Project.auditCount p' = 1 \<and> Project.latestScore p' = Num 85"
proof -
  let ?c = "createProject ''1'' ''t1'' ''alice'' ''Shop'' None None empty_storage"
  let ?v = "a_violation (Some ''critical'') ''1.4.3''"
  have h1: "?c = (fst ?c, snd ?c)" by simp
  have h2: "AuditReport.violations (forged_report [?v]) = [?v]"
    by (simp add: forged_report_def)
  have h3: "severity ?v = Some ''critical''" by (simp add: a_violation_def)
  have h4: "wcag_criterion ?v = ''1.4.3''" by (simp add: a_violation_def)
  have pid: "Project.projectId (fst ?c) = ''proj_1''"
    using createProject_eq [OF h1] by simp
  show ?thesis
    using first_audit_of_fresh_project [OF h1 h2 h3 h4, of "''2''" "''t2''" "''t3''" "''t4''"]
    unfolding pid by blast
qed

section \<open>Properties of authentication\<close>

subsection \<open>Account creation\<close>

lemma createUser_result:
  "createUser H fresh stamp e pw dn st =
     (Inr \<lparr>User.userId = ''user_'' @ fresh, email = toLowerCase e, passwordHash = H pw,
           displayName = sanitizeInput dn, User.createdAt = stamp, lastLoginAt = stamp\<rparr>,
      st\<lparr>user := (user st)(''user_'' @ fresh \<mapsto>
              \<lparr>User.userId = ''user_'' @ fresh, email = toLowerCase e, passwordHash = H pw,
               displayName = sanitizeInput dn, User.createdAt = stamp, lastLoginAt = stamp\<rparr>),
         user_email := (user_email st)(toLowerCase e \<mapsto> ''user_'' @ fresh)\<rparr>)"
  by (simp add: createUser_def try_catch_def storageAPI_get_def Let_def split: option.splits)

lemma toLowerCase_examples:
  "toLowerCase ''Ann@Example.com'' = ''ann@example.com''"
  "toLowerCase ''ann@example.com'' = ''ann@example.com''"
  by code_simp+

text \<open>
  Claim C5 asks that account creation fail with a conflict error when the lowercased
  email already has an index entry, creating no user and keeping the entry. The code does
  otherwise: in every store that holds such an entry, \<open>createUser\<close> returns the new user,
  stores it, and replaces the index entry by the new identifier. The last two conjuncts run
  it on the store with the account \<^verbatim>\<open>ann@example.com\<close> and the email \<^verbatim>\<open>Ann@Example.com\<close>.
\<close>

theorem createUser_existing_email_not_rejected:
  "fst (createUser H fresh stamp e pw dn
          (st\<lparr>user_email := (user_email st)(toLowerCase e \<mapsto> old)\<rparr>))
     = Inr \<lparr>User.userId = ''user_'' @ fresh, email = toLowerCase e, passwordHash = H pw,
            displayName = sanitizeInput dn, User.createdAt = stamp, lastLoginAt = stamp\<rparr>
   \<and> user_email (snd (createUser H fresh stamp e pw dn
          (st\<lparr>user_email := (user_email st)(toLowerCase e \<mapsto> old)\<rparr>))) (toLowerCase e)
     = Some (''user_'' @ fresh)
   \<and> user (snd (createUser H fresh stamp e pw dn
          (st\<lparr>user_email := (user_email st)(toLowerCase e \<mapsto> old)\<rparr>))) (''user_'' @ fresh)
     \<noteq> None
   \<and> user_email one_user_storage ''ann@example.com'' = Some ''user_1''
   \<and> user_email
        (snd (createUser example_hash ''2'' ''t1'' ''Ann@Example.com'' ''other'' ''Eve''
                one_user_storage)) ''ann@example.com''
     = Some ''user_2''"
  by (simp add: createUser_result one_user_storage_def empty_storage_def toLowerCase_examples)


subsection \<open>Login\<close>

lemma check_rate_limit_locked:
  assumes "la el = Some a" and "MAX_LOGIN_ATTEMPTS \<le> count a"
    and "now - lastAttempt a < LOCKOUT_DURATION"
  shows "check_rate_limit now el la
         = Inl (Too_many_attempts
                  \<lceil>real_of_int (LOCKOUT_DURATION - (now - lastAttempt a)) / 60000\<rceil>)"
  using assms by (simp add: check_rate_limit_def Let_def)

lemma check_rate_limit_expired:
  assumes "la el = Some a" and "MAX_LOGIN_ATTEMPTS \<le> count a"
    and "LOCKOUT_DURATION \<le> now - lastAttempt a"
  shows "check_rate_limit now el la = Inr (la(el := None))"
  using assms by (simp add: check_rate_limit_def Let_def)

lemma check_rate_limit_below:
  assumes "la el = None \<or> (\<exists>a. la el = Some a \<and> count a < MAX_LOGIN_ATTEMPTS)"
  shows "check_rate_limit now el la = Inr la"
  using assms by (auto simp: check_rate_limit_def Let_def)

lemma loginUser_limited:
  assumes "check_rate_limit now (toLowerCase e) la = Inl err"
  shows "loginUser H now stamp e pw (la, st) = (Inl err, la, st)"
  using assms by (simp add: loginUser_def Let_def)

lemma loginUser_rejected:
  assumes "check_rate_limit now (toLowerCase e) la = Inr la1"
    and "verify_credentials H (toLowerCase e) pw st = Inl err"
  shows "loginUser H now stamp e pw (la, st)
         = (Inl Invalid_email_or_password,
            la1(toLowerCase e \<mapsto>
                  \<lparr>count = (case la1 (toLowerCase e) of Some a \<Rightarrow> count a | None \<Rightarrow> 0) + 1,
                   lastAttempt = now\<rparr>),
            st)"
  using assms by (simp add: loginUser_def Let_def split: option.splits)

lemma loginUser_accepted:
  assumes "check_rate_limit now (toLowerCase e) la = Inr la1"
    and "verify_credentials H (toLowerCase e) pw st = Inr (uid, u)"
  shows "loginUser H now stamp e pw (la, st)
         = (Inr (u\<lparr>lastLoginAt := stamp\<rparr>), la1(toLowerCase e := None),
            st\<lparr>user := (user st)(uid \<mapsto> u\<lparr>lastLoginAt := stamp\<rparr>)\<rparr>)"
  using assms by (simp add: loginUser_def Let_def)

lemma verify_unknown_email:
  assumes "user_email st el = None"
  shows "verify_credentials H el pw st = Inl Not_found"
  using assms by (simp add: verify_credentials_def storageAPI_get_def)

lemma verify_wrong_password:
  assumes "user_email st el = Some uid" and "user st uid = Some u" and "H pw \<noteq> passwordHash u"
  shows "verify_credentials H el pw st = Inl Invalid_email_or_password"
  using assms by (simp add: verify_credentials_def storageAPI_get_def)

lemma verify_right_password:
  assumes "user_email st el = Some uid" and "user st uid = Some u" and "H pw = passwordHash u"
  shows "verify_credentials H el pw st = Inr (uid, u)"
  using assms by (simp add: verify_credentials_def storageAPI_get_def)

text \<open>A failed attempt below the threshold adds one to the tracked count.\<close>

lemma failed_attempt_counts:
  assumes r: "loginUser H now stamp e pw (la, st) = (Inl Invalid_email_or_password, la', st')"
    and n: "(n = 0 \<and> la (toLowerCase e) = None)
            \<or> (n < MAX_LOGIN_ATTEMPTS \<and> (\<exists>t. la (toLowerCase e) = Some \<lparr>count = n, lastAttempt = t\<rparr>))"
  shows "la' (toLowerCase e) = Some \<lparr>count = n + 1, lastAttempt = now\<rparr> \<and> st' = st"
proof -
  have c: "check_rate_limit now (toLowerCase e) la = Inr la"
    using n by (intro check_rate_limit_below) auto
  show ?thesis
  proof (cases "verify_credentials H (toLowerCase e) pw st")
    case (Inl err)
    from loginUser_rejected [OF c Inl, of stamp] r n show ?thesis by auto
  next
    case (Inr ok)
    obtain uid u where "ok = (uid, u)" by (cases ok)
    with Inr loginUser_accepted [OF c, of H pw st uid u stamp] r show ?thesis by simp
  qed
qed

text \<open>
  Claim C6. Start with no tracked attempts for the email and let five calls of
  \<open>loginUser\<close> for it fail with the invalid-credentials error, the fifth at time \<open>t5\<close>.
  A further call at a time \<open>t6\<close> less than the lockout duration after \<open>t5\<close> fails, for every
  password, with the rate-limit error carrying the minutes left (at least one), and changes
  nothing. A call at a time \<open>t7\<close> at least the lockout duration after \<open>t5\<close>, with the
  password whose hash is stored for the account, returns the user and leaves no tracked
  attempts for the email.
\<close>

theorem lockout_after_five_failed_logins:
  assumes "la0 (toLowerCase e) = None"
    and "loginUser H t1 s1 e p1 (la0, st0) = (Inl Invalid_email_or_password, la1, st1)"
    and "loginUser H t2 s2 e p2 (la1, st1) = (Inl Invalid_email_or_password, la2, st2)"
    and "loginUser H t3 s3 e p3 (la2, st2) = (Inl Invalid_email_or_password, la3, st3)"
    and "loginUser H t4 s4 e p4 (la3, st3) = (Inl Invalid_email_or_password, la4, st4)"
    and "loginUser H t5 s5 e p5 (la4, st4) = (Inl Invalid_email_or_password, la5, st5)"
  shows "(t6 - t5 < LOCKOUT_DURATION \<longrightarrow>
            loginUser H t6 s6 e p (la5, st5)
            = (Inl (Too_many_attempts \<lceil>real_of_int (LOCKOUT_DURATION - (t6 - t5)) / 60000\<rceil>),
               la5, st5)
            \<and> 1 \<le> \<lceil>real_of_int (LOCKOUT_DURATION - (t6 - t5)) / 60000\<rceil>)
         \<and> (LOCKOUT_DURATION \<le> t7 - t5 \<and> user_email st5 (toLowerCase e) = Some uid
              \<and> user st5 uid = Some u \<and> H p = passwordHash u \<longrightarrow>
              (\<exists>la7 st7. loginUser H t7 s7 e p (la5, st5) = (Inr (u\<lparr>lastLoginAt := s7\<rparr>), la7, st7)
                 \<and> la7 (toLowerCase e) = None))"
proof -
  have m: "MAX_LOGIN_ATTEMPTS = 5" by (simp add: MAX_LOGIN_ATTEMPTS_def)
  have a1: "la1 (toLowerCase e) = Some \<lparr>count = 1, lastAttempt = t1\<rparr>"
    using failed_attempt_counts [OF assms(2), of 0] assms(1) by simp
  have a2: "la2 (toLowerCase e) = Some \<lparr>count = 2, lastAttempt = t2\<rparr>"
    using failed_attempt_counts [OF assms(3), of 1] a1 m by simp
  have a3: "la3 (toLowerCase e) = Some \<lparr>count = 3, lastAttempt = t3\<rparr>"
    using failed_attempt_counts [OF assms(4), of 2] a2 m by simp
  have a4: "la4 (toLowerCase e) = Some \<lparr>count = 4, lastAttempt = t4\<rparr>"
    using failed_attempt_counts [OF assms(5), of 3] a3 m by simp
  have a5: "la5 (toLowerCase e) = Some \<lparr>count = 5, lastAttempt = t5\<rparr>"
    using failed_attempt_counts [OF assms(6), of 4] a4 m by simp
  have locked: "loginUser H t6 s6 e p (la5, st5)
            = (Inl (Too_many_attempts \<lceil>real_of_int (LOCKOUT_DURATION - (t6 - t5)) / 60000\<rceil>),
               la5, st5)
            \<and> 1 \<le> \<lceil>real_of_int (LOCKOUT_DURATION - (t6 - t5)) / 60000\<rceil>"
    if w: "t6 - t5 < LOCKOUT_DURATION"
  proof -
    have "check_rate_limit t6 (toLowerCase e) la5
          = Inl (Too_many_attempts \<lceil>real_of_int (LOCKOUT_DURATION - (t6 - t5)) / 60000\<rceil>)"
      using check_rate_limit_locked
              [of la5 "toLowerCase e" "\<lparr>count = 5, lastAttempt = t5\<rparr>" t6] a5 w m
      by simp
    then have 1: "loginUser H t6 s6 e p (la5, st5)
            = (Inl (Too_many_attempts \<lceil>real_of_int (LOCKOUT_DURATION - (t6 - t5)) / 60000\<rceil>),
               la5, st5)"
      by (rule loginUser_limited)
    have "0 < real_of_int (LOCKOUT_DURATION - (t6 - t5)) / 60000" using w by simp
    then have 2: "1 \<le> \<lceil>real_of_int (LOCKOUT_DURATION - (t6 - t5)) / 60000\<rceil>"
      by (simp add: one_le_ceiling del: of_int_diff)
    show ?thesis using 1 2 by simp
  qed
  have unlocked: "\<exists>la7 st7. loginUser H t7 s7 e p (la5, st5) = (Inr (u\<lparr>lastLoginAt := s7\<rparr>), la7, st7)
                 \<and> la7 (toLowerCase e) = None"
    if w: "LOCKOUT_DURATION \<le> t7 - t5" and ue: "user_email st5 (toLowerCase e) = Some uid"
      and us: "user st5 uid = Some u" and pw: "H p = passwordHash u"
  proof -
    have c: "check_rate_limit t7 (toLowerCase e) la5 = Inr (la5(toLowerCase e := None))"
      using check_rate_limit_expired
              [of la5 "toLowerCase e" "\<lparr>count = 5, lastAttempt = t5\<rparr>" t7] a5 w m
      by simp
    have v: "verify_credentials H (toLowerCase e) p st5 = Inr (uid, u)"
      using ue us pw by (rule verify_right_password)
    from loginUser_accepted [OF c v, of s7]
    show ?thesis by simp
  qed
  show ?thesis using locked unlocked by blast
qed

text \<open>
  Claim C7. Take two login attempts that the rate limit lets through, one for an email with
  no index entry and one for an email with an account and a password whose hash differs
  from the stored one. Both return the same error, the invalid-credentials one; both leave
  the store as it was, and both record the failed attempt in the same way, adding one to
  the count tracked for the email.
\<close>

theorem login_failures_indistinguishable:
  assumes "check_rate_limit nowA (toLowerCase emailA) trackedA = Inr trackedA'"
    and "check_rate_limit nowB (toLowerCase emailB) trackedB = Inr trackedB'"
    and "user_email stA (toLowerCase emailA) = None"
    and "user_email stB (toLowerCase emailB) = Some uid"
    and "user stB uid = Some u"
    and "H pwB \<noteq> passwordHash u"
  shows "fst (loginUser H nowA stampA emailA pwA (trackedA, stA)) = Inl Invalid_email_or_password
         \<and> fst (loginUser H nowB stampB emailB pwB (trackedB, stB))
           = fst (loginUser H nowA stampA emailA pwA (trackedA, stA))
         \<and> snd (loginUser H nowA stampA emailA pwA (trackedA, stA))
           = (trackedA'(toLowerCase emailA \<mapsto>
                     \<lparr>count = (case trackedA' (toLowerCase emailA) of Some a \<Rightarrow> count a | None \<Rightarrow> 0) + 1,
                      lastAttempt = nowA\<rparr>), stA)
         \<and> snd (loginUser H nowB stampB emailB pwB (trackedB, stB))
           = (trackedB'(toLowerCase emailB \<mapsto>
                     \<lparr>count = (case trackedB' (toLowerCase emailB) of Some a \<Rightarrow> count a | None \<Rightarrow> 0) + 1,
                      lastAttempt = nowB\<rparr>), stB)"
proof -
  have v1: "verify_credentials H (toLowerCase emailA) pwA stA = Inl Not_found"
    using assms(3) by (rule verify_unknown_email)
  have v2: "verify_credentials H (toLowerCase emailB) pwB stB = Inl Invalid_email_or_password"
    using assms(4,5,6) by (rule verify_wrong_password)
  show ?thesis
    using loginUser_rejected [OF assms(1) v1, of stampA]
          loginUser_rejected [OF assms(2) v2, of stampB]
    by simp
qed

lemma one_user_storage_facts:
  "user_email one_user_storage ''ann@example.com'' = Some ''user_1''"
  "user one_user_storage ''user_1''
     = Some \<lparr>User.userId = ''user_1'', email = ''ann@example.com'',
             passwordHash = example_hash ''secret'', displayName = ''Ann'',
             User.createdAt = ''t0'', lastLoginAt = ''t0''\<rparr>"
  "user_email one_user_storage ''bob@example.com'' = None"
  by (simp_all add: one_user_storage_def createUser_result empty_storage_def
      toLowerCase_examples sanitizeInput_def replace_all_def)

lemma toLowerCase_bob: "toLowerCase ''bob@example.com'' = ''bob@example.com''"
  by code_simp

text \<open>
  Five wrong passwords for \<^verbatim>\<open>ann@example.com\<close> at the times 1000 to 5000: the right
  password at time 6000 is refused with 15 minutes left, and accepted at time 905000.
\<close>

theorem lockout_after_five_failed_logins_witness:
  "loginUser example_hash 6000 ''t6'' ''ann@example.com'' ''secret''
     ([''ann@example.com'' \<mapsto> \<lparr>count = 5, lastAttempt = 5000\<rparr>], one_user_storage)
   = (Inl (Too_many_attempts 15),
      [''ann@example.com'' \<mapsto> \<lparr>count = 5, lastAttempt = 5000\<rparr>], one_user_storage)
   \<and> (\<exists>la7 st7.
         loginUser example_hash 905000 ''t7'' ''ann@example.com'' ''secret''
           ([''ann@example.com'' \<mapsto> \<lparr>count = 5, lastAttempt = 5000\<rparr>], one_user_storage)
         = (Inr \<lparr>User.userId = ''user_1'', email = ''ann@example.com'',
                 passwordHash = example_hash ''secret'', displayName = ''Ann'',
                 User.createdAt = ''t0'', lastLoginAt = ''t7''\<rparr>, la7, st7)
         \<and> la7 ''ann@example.com'' = None)"
proof -
  let ?e = "''ann@example.com''"
  let ?st = "one_user_storage"
  let ?u = "\<lparr>User.userId = ''user_1'', email = ''ann@example.com'',
             passwordHash = example_hash ''secret'', displayName = ''Ann'',
             User.createdAt = ''t0'', lastLoginAt = ''t0''\<rparr>"
  have le: "toLowerCase ?e = ?e" by (rule toLowerCase_examples)
  have bad: "verify_credentials example_hash (toLowerCase ?e) ''wrong'' ?st
             = Inl Invalid_email_or_password"
    unfolding le
    by (rule verify_wrong_password [OF one_user_storage_facts(1) one_user_storage_facts(2)])
       (simp add: example_hash_def)
  have step: "loginUser example_hash t s ?e ''wrong'' (la, ?st)
              = (Inl Invalid_email_or_password,
                 la(?e \<mapsto> \<lparr>count = (case la ?e of Some a \<Rightarrow> count a | None \<Rightarrow> 0) + 1,
                            lastAttempt = t\<rparr>), ?st)"
    if "la ?e = None \<or> (\<exists>a. la ?e = Some a \<and> count a < MAX_LOGIN_ATTEMPTS)" for t s la
    using loginUser_rejected [OF check_rate_limit_below bad, of la t s] that le by simp
  have h0: "Map.empty (toLowerCase ?e) = (None :: Attempt option)" by simp
  have h1: "loginUser example_hash 1000 ''t1'' ?e ''wrong'' (Map.empty, ?st)
            = (Inl Invalid_email_or_password, [?e \<mapsto> \<lparr>count = 1, lastAttempt = 1000\<rparr>], ?st)"
    using step [of Map.empty 1000 "''t1''"] by simp
  have h2: "loginUser example_hash 2000 ''t2'' ?e ''wrong''
              ([?e \<mapsto> \<lparr>count = 1, lastAttempt = 1000\<rparr>], ?st)
            = (Inl Invalid_email_or_password, [?e \<mapsto> \<lparr>count = 2, lastAttempt = 2000\<rparr>], ?st)"
    using step [of "[?e \<mapsto> \<lparr>count = 1, lastAttempt = 1000\<rparr>]" 2000 "''t2''"]
    by (simp add: MAX_LOGIN_ATTEMPTS_def)
  have h3: "loginUser example_hash 3000 ''t3'' ?e ''wrong''
              ([?e \<mapsto> \<lparr>count = 2, lastAttempt = 2000\<rparr>], ?st)
            = (Inl Invalid_email_or_password, [?e \<mapsto> \<lparr>count = 3, lastAttempt = 3000\<rparr>], ?st)"
    using step [of "[?e \<mapsto> \<lparr>count = 2, lastAttempt = 2000\<rparr>]" 3000 "''t3''"]
    by (simp add: MAX_LOGIN_ATTEMPTS_def)
  have h4: "loginUser example_hash 4000 ''t4'' ?e ''wrong''
              ([?e \<mapsto> \<lparr>count = 3, lastAttempt = 3000\<rparr>], ?st)
            = (Inl Invalid_email_or_password, [?e \<mapsto> \<lparr>count = 4, lastAttempt = 4000\<rparr>], ?st)"
    using step [of "[?e \<mapsto> \<lparr>count = 3, lastAttempt = 3000\<rparr>]" 4000 "''t4''"]
    by (simp add: MAX_LOGIN_ATTEMPTS_def)
  have h5: "loginUser example_hash 5000 ''t5'' ?e ''wrong''
              ([?e \<mapsto> \<lparr>count = 4, lastAttempt = 4000\<rparr>], ?st)
            = (Inl Invalid_email_or_password, [?e \<mapsto> \<lparr>count = 5, lastAttempt = 5000\<rparr>], ?st)"
    using step [of "[?e \<mapsto> \<lparr>count = 4, lastAttempt = 4000\<rparr>]" 5000 "''t5''"]
    by (simp add: MAX_LOGIN_ATTEMPTS_def)
  note th = lockout_after_five_failed_logins [OF h0 h1 h2 h3 h4 h5]
  have w6: "(6000::int) - 5000 < LOCKOUT_DURATION" by (simp add: LOCKOUT_DURATION_def)
  have w7: "LOCKOUT_DURATION \<le> (905000::int) - 5000" by (simp add: LOCKOUT_DURATION_def)
  have m: "\<lceil>real_of_int (LOCKOUT_DURATION - (6000 - 5000)) / 60000\<rceil> = 15"
    by (simp add: LOCKOUT_DURATION_def)
  have 1: "loginUser example_hash 6000 ''t6'' ?e ''secret''
             ([?e \<mapsto> \<lparr>count = 5, lastAttempt = 5000\<rparr>], ?st)
           = (Inl (Too_many_attempts 15), [?e \<mapsto> \<lparr>count = 5, lastAttempt = 5000\<rparr>], ?st)"
    using th w6 m by metis
  have 2: "\<exists>la7 st7.
         loginUser example_hash 905000 ''t7'' ?e ''secret''
           ([?e \<mapsto> \<lparr>count = 5, lastAttempt = 5000\<rparr>], ?st)
         = (Inr (?u\<lparr>lastLoginAt := ''t7''\<rparr>), la7, st7) \<and> la7 (toLowerCase ?e) = None"
    using th w7 one_user_storage_facts(1,2) le by (metis User.select_convs(3))
  show ?thesis using 1 2 le by simp
qed

text \<open>
  On the store with the one account \<^verbatim>\<open>ann@example.com\<close>: the unknown \<^verbatim>\<open>bob@example.com\<close>
  and a wrong password for the account.
\<close>

theorem login_failures_indistinguishable_witness:
  "fst (loginUser example_hash 1000 ''t1'' ''bob@example.com'' ''secret''
          (Map.empty, one_user_storage)) = Inl Invalid_email_or_password
   \<and> fst (loginUser example_hash 2000 ''t2'' ''ann@example.com'' ''wrong''
          (Map.empty, one_user_storage)) = Inl Invalid_email_or_password"
proof -
  have c: "check_rate_limit now (toLowerCase e) Map.empty = Inr Map.empty" for now e
    by (rule check_rate_limit_below) simp
  have u1: "user_email one_user_storage (toLowerCase ''bob@example.com'') = None"
    by (simp add: toLowerCase_bob one_user_storage_facts)
  have u2: "user_email one_user_storage (toLowerCase ''ann@example.com'') = Some ''user_1''"
    by (simp add: toLowerCase_examples one_user_storage_facts)
  have p: "example_hash ''wrong''
           \<noteq> passwordHash \<lparr>User.userId = ''user_1'', email = ''ann@example.com'',
                  passwordHash = example_hash ''secret'', displayName = ''Ann'',
                  User.createdAt = ''t0'', lastLoginAt = ''t0''\<rparr>"
    by (simp add: example_hash_def)
  show ?thesis
    using login_failures_indistinguishable
            [where H = example_hash and pwB = "''wrong''" and pwA = "''secret''"
               and stampA = "''t1''" and stampB = "''t2''",
             OF c [of 1000 "''bob@example.com''"] c [of 2000 "''ann@example.com''"]
                u1 u2 one_user_storage_facts(2) p]
    by simp
qed

section \<open>Properties of deleting a project\<close>

lemma fold_delete_audit:
  "audit (fold (\<lambda>a s. s\<lparr>audit := (audit s)(auditId a := None)\<rparr>) as st) k
     = (if k \<in> auditId ` set as then None else audit st k)"
  by (induction as arbitrary: st) auto

lemma fold_delete_others:
  "project (fold (\<lambda>a s. s\<lparr>audit := (audit s)(auditId a := None)\<rparr>) as st) = project st"
  "project_audits (fold (\<lambda>a s. s\<lparr>audit := (audit s)(auditId a := None)\<rparr>) as st)
     = project_audits st"
  "user_projects (fold (\<lambda>a s. s\<lparr>audit := (audit s)(auditId a := None)\<rparr>) as st)
     = user_projects st"
  by (induction as arbitrary: st) auto

lemma deleteProject_fields:
  "audit (deleteProject pid uid st) k
     = (if k \<in> auditId ` set (getProjectAudits pid st) then None else audit st k)"
  "project_audits (deleteProject pid uid st) = (project_audits st)(pid := None)"
  "project (deleteProject pid uid st) = (project st)(pid := None)"
  by (simp_all add: deleteProject_def Let_def storageAPI_get_def fold_delete_audit
      fold_delete_others split: option.splits)

lemma set_getProjectAudits:
  assumes "project_audits st pid = Some ids"
  shows "set (getProjectAudits pid st) = {r. \<exists>i\<in>set ids. audit st i = Some r}"
  using assms
  by (auto simp: getProjectAudits_def storageAPI_get_def Let_def split: option.splits)

lemma getProjectAudits_no_index:
  assumes "project_audits st pid = None"
  shows "getProjectAudits pid st = []"
  using assms by (simp add: getProjectAudits_def storageAPI_get_def)

lemma audits_keyed_index: "audits_keyed st \<Longrightarrow> index_records_keyed pid st"
  by (auto simp: audits_keyed_def index_records_keyed_def list_all_iff split: option.splits)

lemma deleteProject_removes_indexed:
  assumes "index_records_keyed pid st"
    and ids: "project_audits st pid = Some ids" and i: "i \<in> set ids"
  shows "audit (deleteProject pid uid st) i = None"
proof (cases "audit st i")
  case None
  then show ?thesis by (simp add: deleteProject_fields)
next
  case (Some r)
  have "auditId r = i"
    using assms Some by (auto simp: index_records_keyed_def list_all_iff)
  moreover have "r \<in> set (getProjectAudits pid st)"
    using Some i by (auto simp: set_getProjectAudits [OF ids])
  ultimately have "i \<in> auditId ` set (getProjectAudits pid st)" by force
  then show ?thesis by (simp add: deleteProject_fields)
qed

subsection \<open>The stores the operations build keep every audit under its own identifier\<close>

lemma audits_keyed_empty: "audits_keyed empty_storage"
  by (simp add: audits_keyed_def empty_storage_def)

lemma audits_keyed_createUser:
  "audits_keyed st \<Longrightarrow> audits_keyed (snd (createUser H fresh stamp e pw dn st))"
  by (simp add: audits_keyed_def createUser_result)

lemma loginUser_audit:
  "audit (snd (snd (loginUser H now stamp e pw (la, st)))) = audit st"
proof (cases "check_rate_limit now (toLowerCase e) la")
  case (Inl err)
  then show ?thesis by (simp add: loginUser_limited)
next
  case (Inr la1)
  show ?thesis
  proof (cases "verify_credentials H (toLowerCase e) pw st")
    case (Inl err)
    from loginUser_rejected [OF Inr Inl] show ?thesis by simp
  next
    case ok: (Inr res)
    obtain uid u where "res = (uid, u)" by (cases res)
    with ok loginUser_accepted [OF Inr, of H pw st uid u] show ?thesis by simp
  qed
qed

lemma audits_keyed_loginUser:
  "audits_keyed st \<Longrightarrow> audits_keyed (snd (snd (loginUser H now stamp e pw (la, st))))"
  by (simp add: audits_keyed_def loginUser_audit)

lemma audits_keyed_createProject:
  "audits_keyed (snd (createProject fresh stamp uid name url descr st))" if "audits_keyed st"
proof -
  obtain p st1 where c: "createProject fresh stamp uid name url descr st = (p, st1)"
    by (cases "createProject fresh stamp uid name url descr st")
  from createProject_eq [OF c] have "audit st1 = audit st" by blast
  then show ?thesis using c that by (simp add: audits_keyed_def)
qed

lemma audits_keyed_updateProject:
  "audits_keyed st \<Longrightarrow> audits_keyed (snd (updateProject stamp pid updates st))"
  by (auto simp: audits_keyed_def updateProject_def Let_def split: option.splits)

lemma audits_keyed_update:
  assumes "audits_keyed st" and "auditId r = i" and "audit st' = (audit st)(i \<mapsto> r)"
  shows "audits_keyed st'"
  using assms by (simp add: audits_keyed_def)

lemma saveAudit_audit:
  "audit (snd (saveAudit fresh ta tr tu pid uid report st)) = audit st
   \<or> (\<exists>r. auditId r = ''aud_'' @ fresh
          \<and> audit (snd (saveAudit fresh ta tr tu pid uid report st))
            = (audit st)(''aud_'' @ fresh \<mapsto> r))"
proof (cases "project st pid")
  case None
  then show ?thesis by (simp add: saveAudit_def)
next
  case (Some p)
  show ?thesis
  proof (cases "Project.userId p = uid")
    case False
    with Some show ?thesis by (simp add: saveAudit_def)
  next
    case True
    from saveAudit_succeeds [OF Some True] obtain r st'
      where ok: "saveAudit fresh ta tr tu pid uid report st = (Inr r, st')" by blast
    from saveAudit_Inr [OF ok] have i: "auditId r = ''aud_'' @ fresh"
      and a: "audit st' = (audit st)(''aud_'' @ fresh \<mapsto> JSON_AuditRecord r)"
      by blast+
    from i have j: "auditId (JSON_AuditRecord r) = ''aud_'' @ fresh" by simp
    have "audit (snd (saveAudit fresh ta tr tu pid uid report st))
          = (audit st)(''aud_'' @ fresh \<mapsto> JSON_AuditRecord r)"
      using a ok by simp
    with j show ?thesis by blast
  qed
qed

lemma audits_keyed_saveAudit:
  assumes "audits_keyed st"
  shows "audits_keyed (snd (saveAudit fresh ta tr tu pid uid report st))"
  using saveAudit_audit [of fresh ta tr tu pid uid report st]
proof (elim disjE exE conjE)
  assume "audit (snd (saveAudit fresh ta tr tu pid uid report st)) = audit st"
  with assms show ?thesis by (simp add: audits_keyed_def)
next
  fix r
  assume "auditId r = ''aud_'' @ fresh"
    and "audit (snd (saveAudit fresh ta tr tu pid uid report st))
         = (audit st)(''aud_'' @ fresh \<mapsto> r)"
  with assms show ?thesis by (rule audits_keyed_update)
qed

lemma audits_keyed_updateAuditNotes:
  "audits_keyed st \<Longrightarrow> audits_keyed (snd (updateAuditNotes i n st))"
  by (auto simp: audits_keyed_def updateAuditNotes_def storageAPI_get_def JSON_AuditRecord_def
      split: option.splits)

lemma audits_keyed_deleteAudit:
  "audits_keyed st \<Longrightarrow> audits_keyed (deleteAudit i pid st)"
  by (auto simp: audits_keyed_def deleteAudit_def Let_def storageAPI_get_def
      split: option.splits if_splits)

lemma audits_keyed_deleteProject:
  "audits_keyed st \<Longrightarrow> audits_keyed (deleteProject pid uid st)"
  by (auto simp: audits_keyed_def deleteProject_fields split: if_splits)

subsection \<open>The store with one project and one audit\<close>

lemma saveAudit_index:
  assumes "saveAudit fresh ta tr tu pid uid report st = (Inr r, st')"
  shows "project_audits st'
         = (project_audits st)
             (pid \<mapsto> (case project_audits st pid of None \<Rightarrow> [] | Some ids \<Rightarrow> ids)
                       @ [''aud_'' @ fresh])"
  using assms
  by (auto simp: saveAudit_def updateProject_def Let_def storageAPI_get_def
      split: option.splits if_splits)

lemma one_audit_storage_facts:
  "\<exists>p. project one_audit_storage ''proj_1'' = Some p \<and> Project.userId p = ''alice''"
  "project_audits one_audit_storage ''proj_1'' = Some [''aud_2'']"
  "\<exists>r. audit one_audit_storage ''aud_2'' = Some r"
  "audits_keyed one_audit_storage"
proof -
  let ?c = "createProject ''1'' ''t1'' ''alice'' ''Shop'' None None empty_storage"
  let ?rep = "forged_report [a_violation (Some ''critical'') ''1.4.3'']"
  have h: "?c = (fst ?c, snd ?c)" by simp
  note cp = createProject_eq [OF h]
  have p: "project (snd ?c) ''proj_1'' = Some (fst ?c)" "Project.userId (fst ?c) = ''alice''"
    using cp by simp_all
  obtain r st' where ok: "saveAudit ''2'' ''t2'' ''t3'' ''t4'' ''proj_1'' ''alice'' ?rep (snd ?c) = (Inr r, st')"
    using saveAudit_succeeds [OF p] by blast
  have st': "one_audit_storage = st'" using ok by (simp add: one_audit_storage_def)
  from saveAudit_Inr [OF ok] obtain q p' where
      q: "project (snd ?c) ''proj_1'' = Some q"
      and a: "audit st' = (audit (snd ?c))(''aud_'' @ ''2'' \<mapsto> JSON_AuditRecord r)"
      and pr: "project st' = (project (snd ?c))(''proj_1'' \<mapsto> p')"
      and own: "Project.userId p' = Project.userId q"
    by blast
  have "project st' ''proj_1'' = Some p'" using pr by simp
  moreover have "Project.userId p' = ''alice''" using own q p by simp
  ultimately show "\<exists>p. project one_audit_storage ''proj_1'' = Some p \<and> Project.userId p = ''alice''"
    unfolding st' by blast
  have "project_audits (snd ?c) ''proj_1'' = None"
    using cp by (simp add: empty_storage_def)
  then show "project_audits one_audit_storage ''proj_1'' = Some [''aud_2'']"
    unfolding st' using saveAudit_index [OF ok] by simp
  show "\<exists>r. audit one_audit_storage ''aud_2'' = Some r"
    unfolding st' using a by simp
  show "audits_keyed one_audit_storage"
    unfolding one_audit_storage_def
    by (intro audits_keyed_saveAudit audits_keyed_createProject audits_keyed_empty)
qed

text \<open>
  Claim C9. In a store where the records named by the project's audit index lie under
  their own identifiers (as in every store the operations build), after \<open>deleteProject\<close>
  no identifier of that index has an audit record, the index and the project record are
  gone, and \<open>getProjectAudits\<close> for the project returns the empty list.
\<close>

theorem deleteProject_cascades:
  assumes "index_records_keyed pid st"
  shows "(\<forall>ids. project_audits st pid = Some ids
            \<longrightarrow> (\<forall>i\<in>set ids. audit (deleteProject pid uid st) i = None))
         \<and> project_audits (deleteProject pid uid st) pid = None
         \<and> project (deleteProject pid uid st) pid = None
         \<and> getProjectAudits pid (deleteProject pid uid st) = []"
proof -
  have gone: "audit (deleteProject pid uid st) i = None"
    if "project_audits st pid = Some ids" and "i \<in> set ids" for ids i
    using assms that by (rule deleteProject_removes_indexed)
  have idx: "project_audits (deleteProject pid uid st) pid = None"
    by (simp add: deleteProject_fields)
  have prj: "project (deleteProject pid uid st) pid = None"
    by (simp add: deleteProject_fields)
  have lst: "getProjectAudits pid (deleteProject pid uid st) = []"
    using idx by (rule getProjectAudits_no_index)
  show ?thesis using gone idx prj lst by blast
qed

text \<open>
  On the store with the project \<^verbatim>\<open>proj_1\<close> and its audit \<^verbatim>\<open>aud_2\<close>, deleted by the owner.
\<close>

theorem deleteProject_cascades_witness:
  "project_audits one_audit_storage ''proj_1'' = Some [''aud_2'']
   \<and> audit one_audit_storage ''aud_2'' \<noteq> None
   \<and> audit (deleteProject ''proj_1'' ''alice'' one_audit_storage) ''aud_2'' = None
   \<and> project_audits (deleteProject ''proj_1'' ''alice'' one_audit_storage) ''proj_1'' = None
   \<and> project (deleteProject ''proj_1'' ''alice'' one_audit_storage) ''proj_1'' = None
   \<and> getProjectAudits ''proj_1'' (deleteProject ''proj_1'' ''alice'' one_audit_storage) = []"
proof -
  have k: "index_records_keyed ''proj_1'' one_audit_storage"
    using one_audit_storage_facts(4) by (rule audits_keyed_index)
  show ?thesis
    using deleteProject_cascades [OF k, of "''alice''"] one_audit_storage_facts(2,3)
    by auto
qed

text \<open>
  Claim C8 asks that \<open>deleteProject\<close> called with a user other than the project's owner
  remove neither the project nor its audits. The code does otherwise: it never reads the
  owner, and removes the project record for every \<open>userId\<close>. On the store where
  \<^verbatim>\<open>alice\<close> owns \<^verbatim>\<open>proj_1\<close> with the audit \<^verbatim>\<open>aud_2\<close>, the call for \<^verbatim>\<open>mallory\<close> removes both.
\<close>

theorem deleteProject_ignores_owner:
  "project (deleteProject pid uid st) pid = None
   \<and> (\<exists>p. project one_audit_storage ''proj_1'' = Some p \<and> Project.userId p = ''alice'')
   \<and> audit one_audit_storage ''aud_2'' \<noteq> None
   \<and> project (deleteProject ''proj_1'' ''mallory'' one_audit_storage) ''proj_1'' = None
   \<and> audit (deleteProject ''proj_1'' ''mallory'' one_audit_storage) ''aud_2'' = None"
proof -
  have k: "index_records_keyed ''proj_1'' one_audit_storage"
    using one_audit_storage_facts(4) by (rule audits_keyed_index)
  have a: "audit (deleteProject ''proj_1'' ''mallory'' one_audit_storage) ''aud_2'' = None"
    using deleteProject_removes_indexed [OF k one_audit_storage_facts(2)] by simp
  show ?thesis
    using a one_audit_storage_facts(1,3) by (auto simp: deleteProject_fields)
qed

end
